theory Spec2Isabelle
  imports Complex_Main "HOL-Library.AList" "HOL-Library.Sublist" "HOL-Library.Char_ord"
    "HOL-Library.List_Lexorder"
begin

section \<open>Python values\<close>

text \<open>
  The ledger (\<^verbatim>\<open>ledger.py\<close>) handles values decoded from JSON text. A Python \<^verbatim>\<open>float\<close>
  is a finite rational or one of the three special values; a Python \<^verbatim>\<open>str\<close> is a
  \<^typ>\<open>string\<close> (code points below 256), a Python \<^verbatim>\<open>bytes\<close> object is the list of its
  byte values. A Python \<^verbatim>\<open>dict\<close> is an association list in insertion order with distinct keys:
  \<open>AList.update\<close> overwrites in place or appends, as assignment to a dict entry does.
\<close>

datatype py_exc =
  TypeError | ValueError | KeyError | AttributeError | IndexError
  | OverflowError | ZeroDivisionError | UnicodeDecodeError | OSError | LibraryError

datatype pyfloat = Finite rat | PosInf | NegInf | NaN

datatype json =
  JNull
  | JBool bool
  | JInt int
  | JFloat pyfloat
  | JStr string
  | JList "json list"
  | JDict "(string \<times> json) list"

type_synonym bytes = "nat list"

text \<open>A bytes literal \<^verbatim>\<open>b"..."\<close> of ASCII characters, and \<^verbatim>\<open>s.encode("ascii")\<close> for an ASCII
  string.\<close>

definition ascii :: "string \<Rightarrow> bytes" where
  "ascii s = map of_char s"

text \<open>\<^verbatim>\<open>isinstance(v, (int, float)) and -1 <= v <= 1\<close>; \<^verbatim>\<open>bool\<close> is a subclass of
  \<^verbatim>\<open>int\<close>, and every comparison with NaN is false.\<close>

fun in_unit_range :: "json \<Rightarrow> bool" where
  "in_unit_range (JInt i) = (-1 \<le> i \<and> i \<le> 1)"
| "in_unit_range (JBool b) = True"
| "in_unit_range (JFloat (Finite r)) = (-1 \<le> r \<and> r \<le> 1)"
| "in_unit_range _ = False"

text \<open>\<^verbatim>\<open>float(v)\<close> for a number \<open>v\<close>; it is only called after the range check, where the
  conversion of an integer is exact. Values that are not numbers are left as they are
  (no call reaches them).\<close>

fun py_float :: "json \<Rightarrow> json" where
  "py_float (JInt i) = JFloat (Finite (of_int i))"
| "py_float (JBool b) = JFloat (Finite (if b then 1 else 0))"
| "py_float v = v"

text \<open>\<^verbatim>\<open>v != 0.0\<close> for an element of a validated vector.\<close>

fun ne_zero :: "json \<Rightarrow> bool" where
  "ne_zero (JInt i) = (i \<noteq> 0)"
| "ne_zero (JBool b) = b"
| "ne_zero (JFloat (Finite r)) = (r \<noteq> 0)"
| "ne_zero _ = True"

abbreviation zero_float :: json where
  "zero_float \<equiv> JFloat (Finite 0)"

section \<open>Configuration\<close>

text \<open>
  The module \<^verbatim>\<open>config\<close> is not part of the sources; its constants are parameters. A
  challenge is an entry of \<^verbatim>\<open>config.CHALLENGES\<close>, with a non-negative dimension.
\<close>

record challenge =
  ticker :: string
  dim :: nat
  blocks_ahead :: int

record config =
  CHALLENGES :: "challenge list"
  CHALLENGE_MAP :: "(string \<times> challenge) list"
  CHALLENGE_NAME_TO_TICKER :: "(string \<times> string) list"
  ASSET_EMBEDDING_DIMS :: "(string \<times> nat) list"
  SAMPLE_EVERY :: int
  MAX_UNCHANGED_TIMESTEPS :: "int option"
  OWNER_HPKE_PUBLIC_KEY_HEX :: "string option"


section \<open>The submission validator\<close>

type_synonym vecs = "(string \<times> json list) list"

text \<open>\<^verbatim>\<open>{c["ticker"]: [0.0] * c["dim"] for c in config.CHALLENGES}\<close>\<close>

definition zero_vecs :: "config \<Rightarrow> vecs" where
  "zero_vecs cfg =
     fold (\<lambda>c out. AList.update (ticker c) (replicate (dim c) zero_float) out) (CHALLENGES cfg) []"

text \<open>\<^verbatim>\<open>isinstance(vec, list) and len(vec) == dim and all(... for v in vec)\<close>\<close>

fun valid_vec :: "nat \<Rightarrow> json \<Rightarrow> bool" where
  "valid_vec d (JList vs) = (length vs = d \<and> list_all in_unit_range vs)"
| "valid_vec d _ = False"

fun list_items :: "json \<Rightarrow> json list" where
  "list_items (JList vs) = vs"
| "list_items _ = []"

text \<open>The positional form: one iteration of the loop over
  \<^verbatim>\<open>zip(sub, config.CHALLENGES)\<close>.\<close>

definition validate_positional :: "json \<times> challenge \<Rightarrow> vecs \<Rightarrow> vecs" where
  "validate_positional vc out =
     (case vc of (vec, c) \<Rightarrow>
        if valid_vec (dim c) vec then AList.update (ticker c) (list_items vec) out
        else AList.update (ticker c) (replicate (dim c) zero_float) out)"

text \<open>\<^verbatim>\<open>key if key in config.CHALLENGE_MAP else config.CHALLENGE_NAME_TO_TICKER.get(key)\<close>\<close>

definition resolve_ticker :: "config \<Rightarrow> string \<Rightarrow> string option" where
  "resolve_ticker cfg key =
     (if key \<in> fst ` set (CHALLENGE_MAP cfg) then Some key
      else map_of (CHALLENGE_NAME_TO_TICKER cfg) key)"

text \<open>The keyed form: one iteration of the loop over \<^verbatim>\<open>sub.items()\<close>; each
  \<^verbatim>\<open>continue\<close> leaves \<open>out\<close> as it is. A ticker without an entry in
  \<^verbatim>\<open>ASSET_EMBEDDING_DIMS\<close> has \<^verbatim>\<open>dim = None\<close>, which no length equals.\<close>

definition validate_keyed :: "config \<Rightarrow> string \<times> json \<Rightarrow> vecs \<Rightarrow> vecs" where
  "validate_keyed cfg kv out =
     (case kv of (key, vec) \<Rightarrow>
        if key = ''hotkey'' then out
        else (case resolve_ticker cfg key of
            None \<Rightarrow> out
          | Some t \<Rightarrow>
              if t = [] then out
              else (case map_of (ASSET_EMBEDDING_DIMS cfg) t of
                  None \<Rightarrow> out
                | Some d \<Rightarrow>
                    if \<not> valid_vec d vec then out
                    else AList.update t (map py_float (list_items vec)) out)))"

fun validate_submission :: "config \<Rightarrow> json \<Rightarrow> vecs" where
  "validate_submission cfg (JList sub) =
     (if length sub = length (CHALLENGES cfg)
      then fold validate_positional (zip sub (CHALLENGES cfg)) []
      else zero_vecs cfg)"
| "validate_submission cfg (JDict sub) = fold (validate_keyed cfg) sub (zero_vecs cfg)"
| "validate_submission cfg _ = zero_vecs cfg"




text \<open>A configuration with two challenges, and a keyed submission, to run the model on.\<close>

definition demo_cfg :: config where
  "demo_cfg = \<lparr>
     CHALLENGES = [\<lparr>ticker = ''BTC'', dim = 2, blocks_ahead = 300\<rparr>,
                   \<lparr>ticker = ''ETH'', dim = 1, blocks_ahead = 300\<rparr>],
     CHALLENGE_MAP = [(''BTC'', \<lparr>ticker = ''BTC'', dim = 2, blocks_ahead = 300\<rparr>),
                      (''ETH'', \<lparr>ticker = ''ETH'', dim = 1, blocks_ahead = 300\<rparr>)],
     CHALLENGE_NAME_TO_TICKER = [(''BTC-USD'', ''BTC''), (''ETH-USD'', ''ETH'')],
     ASSET_EMBEDDING_DIMS = [(''BTC'', 2), (''ETH'', 1)],
     SAMPLE_EVERY = 100,
     MAX_UNCHANGED_TIMESTEPS = Some 2,
     OWNER_HPKE_PUBLIC_KEY_HEX = Some ''0a0B'' \<rparr>"


section \<open>Python built-ins used by the decryption code\<close>

text \<open>Exceptions are values: \<open>Inl e\<close> is a raised exception, \<open>Inr v\<close> a returned value.\<close>

definition bindE :: "'e + 'a \<Rightarrow> ('a \<Rightarrow> 'e + 'b) \<Rightarrow> 'e + 'b" where
  "bindE m f = (case m of Inl e \<Rightarrow> Inl e | Inr x \<Rightarrow> f x)"

text \<open>\<^verbatim>\<open>str.strip()\<close> and \<^verbatim>\<open>str.lower()\<close> on code points below 256.\<close>

definition py_isspace :: "char \<Rightarrow> bool" where
  "py_isspace c = (let n = (of_char c :: nat) in (9 \<le> n \<and> n \<le> 13) \<or> (28 \<le> n \<and> n \<le> 32) \<or> n = 133 \<or> n = 160)"

definition py_strip :: "string \<Rightarrow> string" where
  "py_strip s = rev (dropWhile py_isspace (rev (dropWhile py_isspace s)))"

definition py_lower_char :: "char \<Rightarrow> char" where
  "py_lower_char c =
     (let n = (of_char c :: nat)
      in if (65 \<le> n \<and> n \<le> 90) \<or> (192 \<le> n \<and> n \<le> 222 \<and> n \<noteq> 215) then char_of (n + 32) else c)"

definition py_lower :: "string \<Rightarrow> string" where
  "py_lower s = map py_lower_char s"

text \<open>\<^verbatim>\<open>bytes.fromhex\<close>: ASCII whitespace is skipped between bytes, never inside one; anything
  else than a pair of hexadecimal digits raises \<^verbatim>\<open>ValueError\<close>.\<close>

definition hex_space :: "char \<Rightarrow> bool" where
  "hex_space c = (let n = (of_char c :: nat) in (9 \<le> n \<and> n \<le> 13) \<or> n = 32)"

definition hex_digit :: "char \<Rightarrow> nat option" where
  "hex_digit c =
     (let n = (of_char c :: nat)
      in if 48 \<le> n \<and> n \<le> 57 then Some (n - 48)
         else if 97 \<le> n \<and> n \<le> 102 then Some (n - 87)
         else if 65 \<le> n \<and> n \<le> 70 then Some (n - 55)
         else None)"

fun fromhex :: "string \<Rightarrow> py_exc + bytes" where
  "fromhex [] = Inr []"
| "fromhex [c] = (if hex_space c then Inr [] else Inl ValueError)"
| "fromhex (c # d # rest) =
     (if hex_space c then fromhex (d # rest)
      else (case (hex_digit c, hex_digit d) of
          (Some hi, Some lo) \<Rightarrow> bindE (fromhex rest) (\<lambda>bs. Inr ((16 * hi + lo) # bs))
        | _ \<Rightarrow> Inl ValueError))"

text \<open>\<^verbatim>\<open>bytes.fromhex(x)\<close> for a decoded JSON value \<open>x\<close>: only a \<^verbatim>\<open>str\<close> is accepted.\<close>

fun json_fromhex :: "json \<Rightarrow> py_exc + bytes" where
  "json_fromhex (JStr s) = fromhex s"
| "json_fromhex _ = Inl TypeError"

text \<open>\<^verbatim>\<open>s.encode("utf-8")\<close> on code points below 256, and \<^verbatim>\<open>b.decode("ascii")\<close>.\<close>

definition utf8_char :: "char \<Rightarrow> bytes" where
  "utf8_char c =
     (let n = (of_char c :: nat)
      in if n < 128 then [n] else [192 + n div 64, 128 + n mod 64])"

definition encode_utf8 :: "string \<Rightarrow> bytes" where
  "encode_utf8 s = concat (map utf8_char s)"

definition decode_ascii :: "bytes \<Rightarrow> py_exc + string" where
  "decode_ascii b = (if list_all (\<lambda>n. n < 128) b then Inr (map char_of b) else Inl UnicodeDecodeError)"

text \<open>\<^verbatim>\<open>str(n)\<close> for an integer.\<close>

fun str_nat :: "nat \<Rightarrow> string" where
  "str_nat n = (if n < 10 then [char_of (48 + n)] else str_nat (n div 10) @ [char_of (48 + n mod 10)])"

declare str_nat.simps [simp del]

definition str_int :: "int \<Rightarrow> string" where
  "str_int i = (if i < 0 then CHR ''-'' # str_nat (nat (- i)) else str_nat (nat i))"

text \<open>\<^verbatim>\<open>obj[key]\<close> with a string key, and \<^verbatim>\<open>obj.get(key)\<close>. Only a dict has either; a missing
  key raises \<^verbatim>\<open>KeyError\<close> in the first and gives \<^verbatim>\<open>None\<close> in the second.\<close>

fun subscript :: "json \<Rightarrow> string \<Rightarrow> py_exc + json" where
  "subscript (JDict kvs) k = (case map_of kvs k of None \<Rightarrow> Inl KeyError | Some v \<Rightarrow> Inr v)"
| "subscript _ k = Inl TypeError"

fun dict_get :: "json \<Rightarrow> string \<Rightarrow> py_exc + json option" where
  "dict_get (JDict kvs) k = Inr (map_of kvs k)"
| "dict_get _ k = Inl AttributeError"

text \<open>\<^verbatim>\<open>bytes.fromhex(payload[k1]...[kn])\<close>\<close>

fun subscripts :: "json \<Rightarrow> string list \<Rightarrow> py_exc + json" where
  "subscripts v [] = Inr v"
| "subscripts v (k # ks) = bindE (subscript v k) (\<lambda>w. subscripts w ks)"

definition hex_field :: "json \<Rightarrow> string list \<Rightarrow> py_exc + bytes" where
  "hex_field payload path = bindE (subscripts payload path) json_fromhex"

section \<open>Libraries\<close>

text \<open>
  The cryptographic libraries, the time-lock library, the parsers of the Python
  standard library and floating-point arithmetic are parameters. A function that can
  raise returns a sum, a parser returns \<open>None\<close> where it raises; the result of
  \<^verbatim>\<open>Timelock.tld\<close> is a \<^verbatim>\<open>str\<close> or a bytes-like object. \<open>float16\<close> is the conversion of a
  number to \<^verbatim>\<open>numpy.float16\<close>, \<open>float32\<close> the one of a float to \<^verbatim>\<open>numpy.float32\<close>.
\<close>

datatype tld_result = TldStr string | TldBytes bytes

record lib =
  sha256 :: "bytes \<Rightarrow> bytes"
  tld :: "bytes \<Rightarrow> bytes \<Rightarrow> py_exc + tld_result"
  x25519_public :: "bytes \<Rightarrow> py_exc + bytes"
  x25519_exchange :: "bytes \<Rightarrow> bytes \<Rightarrow> py_exc + bytes"
  hkdf_sha256 :: "nat \<Rightarrow> bytes \<Rightarrow> bytes \<Rightarrow> py_exc + bytes"
  chacha20poly1305_decrypt :: "bytes \<Rightarrow> bytes \<Rightarrow> bytes \<Rightarrow> bytes \<Rightarrow> py_exc + bytes"
  int_of_str :: "string \<Rightarrow> int option"
  utf8_decode :: "bytes \<Rightarrow> string option"
  json_loads :: "string \<Rightarrow> json option"
  json_dumps :: "json \<Rightarrow> bytes"
  float16 :: "json \<Rightarrow> pyfloat"
  float32 :: "pyfloat \<Rightarrow> pyfloat"
  float_sub :: "pyfloat \<Rightarrow> pyfloat \<Rightarrow> pyfloat"
  float_div :: "pyfloat \<Rightarrow> pyfloat \<Rightarrow> pyfloat"

text \<open>\<^verbatim>\<open>int(x)\<close>: a float is truncated towards zero, an infinity raises
  \<^verbatim>\<open>OverflowError\<close>, NaN and an unparsable string raise \<^verbatim>\<open>ValueError\<close>, and
  \<^verbatim>\<open>None\<close>, a list or a dict raise \<^verbatim>\<open>TypeError\<close>.\<close>

fun py_int :: "lib \<Rightarrow> json \<Rightarrow> py_exc + int" where
  "py_int L (JInt i) = Inr i"
| "py_int L (JBool b) = Inr (if b then 1 else 0)"
| "py_int L (JFloat (Finite r)) = Inr (if 0 \<le> r then \<lfloor>r\<rfloor> else \<lceil>r\<rceil>)"
| "py_int L (JFloat NaN) = Inl ValueError"
| "py_int L (JFloat _) = Inl OverflowError"
| "py_int L (JStr s) = (case int_of_str L s of None \<Rightarrow> Inl ValueError | Some i \<Rightarrow> Inr i)"
| "py_int L _ = Inl TypeError"

section \<open>Hybrid decryption (V2)\<close>

text \<open>\<^verbatim>\<open>_sha256(*parts)\<close> feeds the parts to one hash object in order.\<close>

definition sha256_parts :: "lib \<Rightarrow> bytes list \<Rightarrow> bytes" where
  "sha256_parts L parts = sha256 L (concat parts)"

text \<open>\<^verbatim>\<open>_hkdf_key_nonce(shared_secret, info)\<close> with its default lengths 32 and 12.\<close>

definition hkdf_key_nonce :: "lib \<Rightarrow> bytes \<Rightarrow> bytes \<Rightarrow> py_exc + bytes \<times> bytes" where
  "hkdf_key_nonce L shared_secret info =
     bindE (hkdf_sha256 L (32 + 12) info shared_secret) (\<lambda>out. Inr (take 32 out, drop 32 out))"

text \<open>\<^verbatim>\<open>_binding(hk, rnd, owner_pk, pke)\<close>\<close>

definition binding :: "lib \<Rightarrow> string \<Rightarrow> int \<Rightarrow> bytes \<Rightarrow> bytes \<Rightarrow> bytes" where
  "binding L hk rnd owner_pk pke =
     sha256_parts L [encode_utf8 hk, ascii '':'', ascii (str_int rnd), ascii '':'', owner_pk, ascii '':'', pke]"

text \<open>\<^verbatim>\<open>_derive_pke(ske_raw)\<close>\<close>

definition derive_pke :: "lib \<Rightarrow> bytes \<Rightarrow> py_exc + bytes" where
  "derive_pke L ske_raw = x25519_public L ske_raw"

text \<open>The lines of \<^verbatim>\<open>_decrypt_v2_payload\<close> that turn the time-lock output into \<open>skeK\<close>: a
  string is read as hex, or encoded if it is not hex; 128 bytes that are ASCII hex are
  decoded once more.\<close>

definition unwrap_skeK :: "tld_result \<Rightarrow> bytes" where
  "unwrap_skeK skeK_raw =
     (case skeK_raw of
        TldStr s \<Rightarrow> (case fromhex s of Inr b \<Rightarrow> b | Inl _ \<Rightarrow> encode_utf8 s)
      | TldBytes b \<Rightarrow>
          if length b = 128
          then (case bindE (decode_ascii b) fromhex of Inr b' \<Rightarrow> b' | Inl _ \<Rightarrow> b)
          else b)"

text \<open>
  The body of the \<^verbatim>\<open>try\<close> block, after the test \<^verbatim>\<open>if not sig\<close>, in two parts. The first
  part runs up to the comparison of the recomputed binding with the declared one; it
  returns \<open>None\<close> where the code returns \<^verbatim>\<open>None\<close>, and otherwise the owner key, the
  ephemeral key and the binding. The arguments of \<^verbatim>\<open>_binding\<close> are evaluated in the
  order of the source: \<^verbatim>\<open>payload["hk"]\<close>, then \<^verbatim>\<open>int(payload["round"])\<close>, and inside
  \<^verbatim>\<open>_binding\<close> the call \<^verbatim>\<open>hk.encode\<close>, which only a \<^verbatim>\<open>str\<close> has.
\<close>

definition configured_owner_pk_hex :: "config \<Rightarrow> string" where
  "configured_owner_pk_hex cfg =
     py_strip (case OWNER_HPKE_PUBLIC_KEY_HEX cfg of None \<Rightarrow> [] | Some s \<Rightarrow> s)"

definition owner_pk_differs :: "json option \<Rightarrow> string \<Rightarrow> bool" where
  "owner_pk_differs payload_owner_pk_hex configured =
     (case payload_owner_pk_hex of
        Some (JStr s) \<Rightarrow> py_lower s \<noteq> py_lower configured
      | _ \<Rightarrow> False)"

definition payload_hk :: "json \<Rightarrow> py_exc + string" where
  "payload_hk payload =
     bindE (subscript payload ''hk'') (\<lambda>hk. case hk of JStr s \<Rightarrow> Inr s | _ \<Rightarrow> Inl AttributeError)"

definition payload_round :: "lib \<Rightarrow> json \<Rightarrow> py_exc + int" where
  "payload_round L payload = bindE (subscript payload ''round'') (py_int L)"

definition v2_binding_gate ::
  "lib \<Rightarrow> config \<Rightarrow> json \<Rightarrow> py_exc + (bytes \<times> bytes \<times> bytes) option" where
  "v2_binding_gate L cfg payload =
     (if configured_owner_pk_hex cfg = [] then Inr None
      else bindE (dict_get payload ''owner_pk'') (\<lambda>payload_owner_pk_hex.
        if owner_pk_differs payload_owner_pk_hex (configured_owner_pk_hex cfg) then Inr None
        else bindE (fromhex (configured_owner_pk_hex cfg)) (\<lambda>owner_pk.
          bindE (hex_field payload [''W_owner'', ''pke'']) (\<lambda>pke.
          bindE (subscript payload ''hk'') (\<lambda>_.
          bindE (payload_round L payload) (\<lambda>rnd.
          bindE (payload_hk payload) (\<lambda>hk.
          bindE (hex_field payload [''binding'']) (\<lambda>declared.
            if binding L hk rnd owner_pk pke \<noteq> declared then Inr None
            else Inr (Some (owner_pk, pke, binding L hk rnd owner_pk pke))))))))))"

text \<open>The second part: time-lock, key agreement and the two AEAD decryptions.\<close>

definition v2_open ::
  "lib \<Rightarrow> json \<Rightarrow> bytes \<Rightarrow> bytes \<Rightarrow> bytes \<Rightarrow> bytes \<Rightarrow> py_exc + bytes option" where
  "v2_open L payload sig owner_pk pke bnd =
     bindE (hex_field payload [''W_time'', ''ct'']) (\<lambda>wt_ct.
     bindE (tld L wt_ct sig) (\<lambda>skeK_raw.
       let skeK = unwrap_skeK skeK_raw
       in if length skeK \<noteq> 64 then Inr None
          else let ske = take 32 skeK; key = drop 32 skeK
           in bindE (derive_pke L ske) (\<lambda>derived.
              if derived \<noteq> pke then Inr None
              else bindE (x25519_exchange L ske owner_pk) (\<lambda>shared.
                bindE (hkdf_key_nonce L shared (ascii ''mantis-owner-wrap'')) (\<lambda>k1n.
                bindE (hex_field payload [''W_owner'', ''nonce'']) (\<lambda>nonce.
                bindE (hex_field payload [''W_owner'', ''ct'']) (\<lambda>wo_ct.
                bindE (chacha20poly1305_decrypt L (fst k1n) nonce wo_ct bnd) (\<lambda>wrapped.
                  if wrapped \<noteq> key then Inr None
                  else bindE (hex_field payload [''C'', ''nonce'']) (\<lambda>c_nonce.
                    bindE (hex_field payload [''C'', ''ct'']) (\<lambda>c_ct.
                    bindE (chacha20poly1305_decrypt L key c_nonce c_ct bnd) (\<lambda>pt.
                      Inr (Some pt))))))))))))"

definition decrypt_v2_body :: "lib \<Rightarrow> config \<Rightarrow> json \<Rightarrow> bytes option \<Rightarrow> py_exc + bytes option" where
  "decrypt_v2_body L cfg payload sig =
     (case sig of
        None \<Rightarrow> Inr None
      | Some sg \<Rightarrow>
          if sg = [] then Inr None
          else bindE (v2_binding_gate L cfg payload) (\<lambda>g.
            case g of
              None \<Rightarrow> Inr None
            | Some (owner_pk, pke, bnd) \<Rightarrow> v2_open L payload sg owner_pk pke bnd))"

text \<open>\<^verbatim>\<open>_decrypt_v2_payload\<close>: the body inside \<^verbatim>\<open>try\<close>, with
  \<^verbatim>\<open>except Exception: return None\<close> around it.\<close>

definition decrypt_v2_payload :: "lib \<Rightarrow> config \<Rightarrow> json \<Rightarrow> bytes option \<Rightarrow> py_exc + bytes option" where
  "decrypt_v2_payload L cfg payload sig =
     (case decrypt_v2_body L cfg payload sig of Inl e \<Rightarrow> Inr None | Inr r \<Rightarrow> Inr r)"

text \<open>
  The protocol steps of a successful V2 decryption, as the specification lists them:
  a signature is present, an owner key is configured and is hex, the payload carries
  \<open>hk\<close>, \<open>round\<close> and hex fields, the declared binding is the recomputed one, the
  time-lock output has 64 bytes whose first half derives the committed ephemeral key,
  the owner-wrapped key equals the second half, and the content decrypts under it.
\<close>

definition v2_steps_hold :: "lib \<Rightarrow> config \<Rightarrow> json \<Rightarrow> bytes option \<Rightarrow> bytes \<Rightarrow> bool" where
  "v2_steps_hold L cfg payload sig pt \<longleftrightarrow>
     (\<exists>sg po owner_pk pke hk rnd wt_ct skeK_raw shared okm nonce wo_ct c_nonce c_ct.
        sig = Some sg \<and> sg \<noteq> [] \<and>
        configured_owner_pk_hex cfg \<noteq> [] \<and>
        dict_get payload ''owner_pk'' = Inr po \<and>
        \<not> owner_pk_differs po (configured_owner_pk_hex cfg) \<and>
        fromhex (configured_owner_pk_hex cfg) = Inr owner_pk \<and>
        hex_field payload [''W_owner'', ''pke''] = Inr pke \<and>
        payload_hk payload = Inr hk \<and>
        payload_round L payload = Inr rnd \<and>
        hex_field payload [''binding''] = Inr (binding L hk rnd owner_pk pke) \<and>
        hex_field payload [''W_time'', ''ct''] = Inr wt_ct \<and>
        tld L wt_ct sg = Inr skeK_raw \<and>
        length (unwrap_skeK skeK_raw) = 64 \<and>
        derive_pke L (take 32 (unwrap_skeK skeK_raw)) = Inr pke \<and>
        x25519_exchange L (take 32 (unwrap_skeK skeK_raw)) owner_pk = Inr shared \<and>
        hkdf_sha256 L 44 (ascii ''mantis-owner-wrap'') shared = Inr okm \<and>
        hex_field payload [''W_owner'', ''nonce''] = Inr nonce \<and>
        hex_field payload [''W_owner'', ''ct''] = Inr wo_ct \<and>
        chacha20poly1305_decrypt L (take 32 okm) nonce wo_ct (binding L hk rnd owner_pk pke)
          = Inr (drop 32 (unwrap_skeK skeK_raw)) \<and>
        hex_field payload [''C'', ''nonce''] = Inr c_nonce \<and>
        hex_field payload [''C'', ''ct''] = Inr c_ct \<and>
        chacha20poly1305_decrypt L (drop 32 (unwrap_skeK skeK_raw)) c_nonce c_ct
          (binding L hk rnd owner_pk pke) = Inr pt)"

text \<open>The commitment as the specification writes it: one separator, after \<open>hk\<close>.\<close>

definition spec_binding :: "lib \<Rightarrow> string \<Rightarrow> int \<Rightarrow> bytes \<Rightarrow> bytes \<Rightarrow> bytes" where
  "spec_binding L hk rnd owner_pk pke =
     sha256 L (encode_utf8 hk @ ascii '':'' @ ascii (str_int rnd) @ owner_pk @ pke)"

section \<open>SHA-256\<close>

text \<open>
  The hash function behind \<^verbatim>\<open>hashlib.sha256\<close> (FIPS 180-4), on 32-bit words held as
  natural numbers. It is not part of the ledger; it serves to run the model on concrete
  payloads with the hash the code really uses.
\<close>

unbundle bit_operations_syntax

definition add32 :: "nat \<Rightarrow> nat \<Rightarrow> nat" where
  "add32 a b = (a + b) mod 4294967296"

definition rotr :: "nat \<Rightarrow> nat \<Rightarrow> nat" where
  "rotr n x = x div 2 ^ n + (x mod 2 ^ n) * 2 ^ (32 - n)"

definition Ch :: "nat \<Rightarrow> nat \<Rightarrow> nat \<Rightarrow> nat" where
  "Ch x y z = (x AND y) XOR ((4294967295 - x) AND z)"

definition Maj :: "nat \<Rightarrow> nat \<Rightarrow> nat \<Rightarrow> nat" where
  "Maj x y z = (x AND y) XOR (x AND z) XOR (y AND z)"

definition bsig0 :: "nat \<Rightarrow> nat" where
  "bsig0 x = rotr 2 x XOR rotr 13 x XOR rotr 22 x"

definition bsig1 :: "nat \<Rightarrow> nat" where
  "bsig1 x = rotr 6 x XOR rotr 11 x XOR rotr 25 x"

definition ssig0 :: "nat \<Rightarrow> nat" where
  "ssig0 x = rotr 7 x XOR rotr 18 x XOR (x div 2 ^ 3)"

definition ssig1 :: "nat \<Rightarrow> nat" where
  "ssig1 x = rotr 17 x XOR rotr 19 x XOR (x div 2 ^ 10)"

definition K256 :: "nat list" where
  "K256 = [
  0x428a2f98, 0x71374491, 0xb5c0fbcf, 0xe9b5dba5, 0x3956c25b, 0x59f111f1, 0x923f82a4, 0xab1c5ed5,
  0xd807aa98, 0x12835b01, 0x243185be, 0x550c7dc3, 0x72be5d74, 0x80deb1fe, 0x9bdc06a7, 0xc19bf174,
  0xe49b69c1, 0xefbe4786, 0x0fc19dc6, 0x240ca1cc, 0x2de92c6f, 0x4a7484aa, 0x5cb0a9dc, 0x76f988da,
  0x983e5152, 0xa831c66d, 0xb00327c8, 0xbf597fc7, 0xc6e00bf3, 0xd5a79147, 0x06ca6351, 0x14292967,
  0x27b70a85, 0x2e1b2138, 0x4d2c6dfc, 0x53380d13, 0x650a7354, 0x766a0abb, 0x81c2c92e, 0x92722c85,
  0xa2bfe8a1, 0xa81a664b, 0xc24b8b70, 0xc76c51a3, 0xd192e819, 0xd6990624, 0xf40e3585, 0x106aa070,
  0x19a4c116, 0x1e376c08, 0x2748774c, 0x34b0bcb5, 0x391c0cb3, 0x4ed8aa4a, 0x5b9cca4f, 0x682e6ff3,
  0x748f82ee, 0x78a5636f, 0x84c87814, 0x8cc70208, 0x90befffa, 0xa4506ceb, 0xbef9a3f7, 0xc67178f2]"

definition H256 :: "nat list" where
  "H256 = [0x6a09e667, 0xbb67ae85, 0x3c6ef372, 0xa54ff53a,
           0x510e527f, 0x9b05688c, 0x1f83d9ab, 0x5be0cd19]"

text \<open>The next word of the message schedule, from the sixteen most recent ones
  (oldest first).\<close>

fun next_w :: "nat list \<Rightarrow> nat" where
  "next_w (w0 # w1 # w2 # w3 # w4 # w5 # w6 # w7 # w8 # w9 # w10 # w11 # w12 # w13 # w14 # rest) =
     add32 (add32 (ssig1 w14) w9) (add32 (ssig0 w1) w0)"
| "next_w _ = 0"

fun sha_round :: "nat \<Rightarrow> nat \<Rightarrow> nat list \<Rightarrow> nat list" where
  "sha_round k w [a, b, c, d, e, f, g, h] =
     [add32 (add32 (add32 (add32 h (bsig1 e)) (add32 (Ch e f g) k)) w) (add32 (bsig0 a) (Maj a b c)),
      a, b, c, add32 d (add32 (add32 (add32 h (bsig1 e)) (add32 (Ch e f g) k)) w), e, f, g]"
| "sha_round k w st = st"

fun sha_rounds :: "nat list \<Rightarrow> nat list \<Rightarrow> nat list \<Rightarrow> nat list" where
  "sha_rounds [] win st = st"
| "sha_rounds (k # ks) win st = sha_rounds ks (tl win @ [next_w win]) (sha_round k (hd win) st)"

definition sha_compress :: "nat list \<Rightarrow> nat list \<Rightarrow> nat list" where
  "sha_compress st block = map2 add32 st (sha_rounds K256 block st)"

definition be64 :: "nat \<Rightarrow> nat list" where
  "be64 n = [(n div 2 ^ 56) mod 256, (n div 2 ^ 48) mod 256, (n div 2 ^ 40) mod 256,
             (n div 2 ^ 32) mod 256, (n div 2 ^ 24) mod 256, (n div 2 ^ 16) mod 256,
             (n div 2 ^ 8) mod 256, n mod 256]"

definition sha_pad :: "nat list \<Rightarrow> nat list" where
  "sha_pad m = m @ [128] @ replicate ((119 - length m mod 64) mod 64) 0 @ be64 (8 * length m)"

fun be32 :: "nat list \<Rightarrow> nat list" where
  "be32 (a # b # c # d # rest) = (((a * 256 + b) * 256 + c) * 256 + d) # be32 rest"
| "be32 _ = []"

fun sha_blocks :: "nat list \<Rightarrow> nat list list" where
  "sha_blocks [] = []"
| "sha_blocks (w # ws) = take 16 (w # ws) # sha_blocks (drop 15 ws)"

definition word_bytes :: "nat \<Rightarrow> nat list" where
  "word_bytes w = [w div 2 ^ 24, (w div 2 ^ 16) mod 256, (w div 2 ^ 8) mod 256, w mod 256]"

definition sha256_words :: "nat list \<Rightarrow> nat list" where
  "sha256_words m = fold (\<lambda>block st. sha_compress st block) (sha_blocks (be32 (sha_pad m))) H256"

definition sha256_digest :: "bytes \<Rightarrow> bytes" where
  "sha256_digest m = concat (map word_bytes (sha256_words m))"


section \<open>Stand-ins for the libraries\<close>

text \<open>
  To run the model on concrete payloads: the real SHA-256, and simple functions in place
  of the other libraries. The time-lock stand-in opens a ciphertext to itself under the
  signature \<open>sig7\<close>; the public key of a secret is its first four bytes; the AEAD
  stand-in takes keys of 32 and nonces of 12 bytes and expects the first four bytes of
  the associated data in front of the plaintext. The JSON parser knows the texts of
  \<open>demo_json\<close>; the float conversions are exact (the numbers used are representable).
\<close>

definition demo_json :: "(string \<times> json) list" where
  "demo_json =
     [(''{\"hotkey\":\"hk1\",\"BTC\":[1,-0.5]}'',
         JDict [(''hotkey'', JStr ''hk1''), (''BTC'', JList [JInt 1, JFloat (Finite (- 1 / 2))])]),
      (''{\"ciphertext\": \"00\", \"round\": Infinity}'',
         JDict [(''ciphertext'', JStr ''00''), (''round'', JFloat PosInf)]),
      (''{\"ciphertext\": \"00\", \"round\": 0}'',
         JDict [(''ciphertext'', JStr ''00''), (''round'', JInt 0)]),
      (''{}'', JDict [])]"

definition demo_lib :: lib where
  "demo_lib = \<lparr>
     sha256 = sha256_digest,
     tld = (\<lambda>ct sig. if sig = ascii ''sig7'' then Inr (TldBytes ct) else Inl LibraryError),
     x25519_public = (\<lambda>sk. Inr (take 4 sk)),
     x25519_exchange = (\<lambda>sk pk. Inr (pk @ sk)),
     hkdf_sha256 = (\<lambda>n info ikm. Inr (replicate n 107)),
     chacha20poly1305_decrypt = (\<lambda>key nonce ct aad.
        if length key = 32 \<and> length nonce = 12 \<and> take 4 ct = take 4 aad
        then Inr (drop 4 ct) else Inl LibraryError),
     int_of_str = (\<lambda>s. None),
     utf8_decode = (\<lambda>b. if list_all (\<lambda>n. n < 128) b then Some (map char_of b) else None),
     json_loads = map_of demo_json,
     json_dumps = (\<lambda>v. case find (\<lambda>sv. snd sv = v) demo_json of
                        Some sv \<Rightarrow> ascii (fst sv) | None \<Rightarrow> ascii ''null''),
     float16 = (\<lambda>v. case py_float v of JFloat x \<Rightarrow> x | _ \<Rightarrow> NaN),
     float32 = (\<lambda>x. x),
     float_sub = (\<lambda>x y. case (x, y) of (Finite a, Finite b) \<Rightarrow> Finite (a - b) | _ \<Rightarrow> NaN),
     float_div = (\<lambda>x y. case (x, y) of (Finite a, Finite b) \<Rightarrow> Finite (a / b) | _ \<Rightarrow> NaN) \<rparr>"

text \<open>A V2 payload for hotkey context \<open>hk1\<close> and round 7 under the owner key of
  \<open>demo_cfg\<close>, with the \<^verbatim>\<open>owner_pk\<close> field left open; its plaintext is
  \<^verbatim>\<open>{"hotkey":"hk1","BTC":[1,-0.5]}\<close>.\<close>

definition demo_plaintext :: bytes where
  "demo_plaintext = ascii ''{\"hotkey\":\"hk1\",\"BTC\":[1,-0.5]}''"

definition demo_payload :: "(string \<times> json) list \<Rightarrow> json" where
  "demo_payload owner = JDict ([(''v'', JInt 2), (''hk'', JStr ''hk1''), (''round'', JInt 7)] @ owner @
     [(''W_time'', JDict [(''ct'', JStr ''73737373737373737373737373737373737373737373737373737373737373734b4b4b4b4b4b4b4b4b4b4b4b4b4b4b4b4b4b4b4b4b4b4b4b4b4b4b4b4b4b4b4b'')]),
      (''W_owner'', JDict [(''pke'', JStr ''73737373''),
                          (''nonce'', JStr ''000000000000000000000000''),
                          (''ct'', JStr ''1adbfd7c4b4b4b4b4b4b4b4b4b4b4b4b4b4b4b4b4b4b4b4b4b4b4b4b4b4b4b4b4b4b4b4b'')]),
      (''C'', JDict [(''nonce'', JStr ''010101010101010101010101''),
                    (''ct'', JStr ''1adbfd7c7b22686f746b6579223a22686b31222c22425443223a5b312c2d302e355d7d'')]),
      (''binding'', JStr ''1adbfd7c91f92b6504d8f80e64348e219245123a5c3c93718f6d9da43343a582'')])"

section \<open>The ledger\<close>

text \<open>
  \<^verbatim>\<open>ChallengeData\<close> and \<^verbatim>\<open>DataLog\<close>. A sample is the dict
  \<^verbatim>\<open>{"hotkeys": [...], "price": ..., "emb": {...}}\<close>; an embedding is a \<^verbatim>\<open>float16\<close> array.
  The lock and the time-lock object carry no data. A timestep is an index into
  \<open>blocks\<close>.
\<close>

record sample =
  hotkeys :: "string list"
  price :: "pyfloat option"
  emb :: "(string \<times> pyfloat list) list"

record challenge_data =
  cd_dim :: nat
  cd_blocks_ahead :: int
  sidx :: "(int \<times> sample) list"

record datalog =
  blocks :: "int list"
  challenges :: "(string \<times> challenge_data) list"
  raw_payloads :: "(nat \<times> (string \<times> bytes) list) list"
  drand_cache :: "(int \<times> bytes) list"

text \<open>An operation on the ledger returns, or raises after having changed the ledger
  so far.\<close>

datatype 's outcome = Returned 's | Raised py_exc 's

fun state_of :: "'s outcome \<Rightarrow> 's" where
  "state_of (Returned s) = s"
| "state_of (Raised e s) = s"

text \<open>\<^verbatim>\<open>DataLog.__init__\<close>\<close>

definition datalog_init :: "config \<Rightarrow> datalog" where
  "datalog_init cfg = \<lparr>
     blocks = [],
     challenges = fold (\<lambda>c chs. AList.update (ticker c)
                    \<lparr>cd_dim = dim c, cd_blocks_ahead = blocks_ahead c, sidx = []\<rparr> chs) (CHALLENGES cfg) [],
     raw_payloads = [],
     drand_cache = [] \<rparr>"

text \<open>\<^verbatim>\<open>self.sidx.setdefault(sidx, {"hotkeys": [], "price": None, "emb": {}})\<close>: the sample at
  an index, a fresh one if there is none.\<close>

definition sample_at :: "challenge_data \<Rightarrow> int \<Rightarrow> sample" where
  "sample_at ch i =
     (case map_of (sidx ch) i of None \<Rightarrow> \<lparr>hotkeys = [], price = None, emb = []\<rparr> | Some d \<Rightarrow> d)"

text \<open>\<^verbatim>\<open>ChallengeData.set_price\<close>; the price feed delivers floats, on which \<^verbatim>\<open>float\<close> is the
  identity.\<close>

definition set_price :: "int \<Rightarrow> pyfloat \<Rightarrow> challenge_data \<Rightarrow> challenge_data" where
  "set_price i p ch = ch\<lparr>sidx := AList.update i ((sample_at ch i)\<lparr>price := Some p\<rparr>) (sidx ch)\<rparr>"

text \<open>\<^verbatim>\<open>ChallengeData.set_emb\<close>\<close>

definition set_emb :: "lib \<Rightarrow> int \<Rightarrow> string \<Rightarrow> json list \<Rightarrow> challenge_data \<Rightarrow> challenge_data" where
  "set_emb L i hk vec ch =
     (let d = sample_at ch i;
          d' = d\<lparr>emb := AList.update hk (map (float16 L) vec) (emb d),
                 hotkeys := (if hk \<in> set (hotkeys d) then hotkeys d else hotkeys d @ [hk])\<rparr>
      in ch\<lparr>sidx := AList.update i d' (sidx ch)\<rparr>)"

text \<open>The truth value of a decoded JSON value, as \<^verbatim>\<open>if ct\<close> takes it.\<close>

fun truthy :: "json \<Rightarrow> bool" where
  "truthy JNull = False"
| "truthy (JBool b) = b"
| "truthy (JInt i) = (i \<noteq> 0)"
| "truthy (JFloat x) = (x \<noteq> Finite 0)"
| "truthy (JStr s) = (s \<noteq> [])"
| "truthy (JList xs) = (xs \<noteq> [])"
| "truthy (JDict kvs) = (kvs \<noteq> [])"

text \<open>
  \<^verbatim>\<open>DataLog.append_step(block, prices, payloads, mg)\<close>, with \<open>mg.hotkeys\<close> for \<open>mg\<close>. The
  block is appended before \<^verbatim>\<open>block // SAMPLE_EVERY\<close> can raise.
\<close>

definition store_payloads ::
  "lib \<Rightarrow> (string \<times> json) list \<Rightarrow> string list \<Rightarrow> (string \<times> bytes) list" where
  "store_payloads L payloads mg_hotkeys =
     fold (\<lambda>hk by_hk. AList.update hk
        (case map_of payloads hk of
           None \<Rightarrow> ascii ''{}''
         | Some ct \<Rightarrow> if truthy ct then json_dumps L ct else ascii ''{}'') by_hk) mg_hotkeys []"

definition record_prices ::
  "int \<Rightarrow> (string \<times> pyfloat) list \<Rightarrow> (string \<times> challenge_data) list \<Rightarrow> (string \<times> challenge_data) list" where
  "record_prices i prices chs =
     map (\<lambda>(t, ch). (t, case map_of prices t of None \<Rightarrow> ch | Some p \<Rightarrow> set_price i p ch)) chs"

definition append_step ::
  "lib \<Rightarrow> config \<Rightarrow> int \<Rightarrow> (string \<times> pyfloat) list \<Rightarrow> (string \<times> json) list \<Rightarrow> string list \<Rightarrow>
   datalog \<Rightarrow> datalog outcome" where
  "append_step L cfg block prices payloads mg_hotkeys st =
     (let blocks' = blocks st @ [block];
          ts = length blocks' - 1;
          st1 = st\<lparr>blocks := blocks', raw_payloads := AList.update ts [] (raw_payloads st)\<rparr>
      in if SAMPLE_EVERY cfg = 0 then Raised ZeroDivisionError st1
         else Returned (st1\<lparr>
           challenges := record_prices (block div SAMPLE_EVERY cfg) prices (challenges st1),
           raw_payloads := AList.update ts (store_payloads L payloads mg_hotkeys) (raw_payloads st1)\<rparr>))"

text \<open>\<^verbatim>\<open>DataLog.prune_hotkeys(active)\<close>\<close>

definition prune_sample :: "string list \<Rightarrow> sample \<Rightarrow> sample" where
  "prune_sample active d =
     d\<lparr>emb := filter (\<lambda>kv. fst kv \<in> set active) (emb d),
       hotkeys := filter (\<lambda>hk. hk \<in> set active) (hotkeys d)\<rparr>"

definition prune_hotkeys :: "string list \<Rightarrow> datalog \<Rightarrow> datalog" where
  "prune_hotkeys active st =
     st\<lparr>challenges :=
          map (\<lambda>(t, ch). (t, ch\<lparr>sidx := map (\<lambda>(i, d). (i, prune_sample active d)) (sidx ch)\<rparr>))
            (challenges st)\<rparr>"

section \<open>The decrypt pass\<close>

text \<open>
  The beacon service: what the two HTTP transports answer to the request for a round at
  a given attempt of the retry loop. \<open>Some body\<close> is a response with status 200 and a
  JSON body, \<open>None\<close> any other status and any exception of the transport.
\<close>

record net =
  async_get :: "int \<Rightarrow> nat \<Rightarrow> json option"
  sync_get :: "int \<Rightarrow> nat \<Rightarrow> json option"

text \<open>
  \<^verbatim>\<open>DataLog._get_drand_signature\<close>: the cache first; then the asynchronous transport, whose
  signature is returned even when empty; then the synchronous one. The result comes with
  the updated cache.
\<close>

definition get_drand_signature ::
  "net \<Rightarrow> nat \<Rightarrow> int \<Rightarrow> (int \<times> bytes) list \<Rightarrow> bytes option \<times> (int \<times> bytes) list" where
  "get_drand_signature N attempt round_num cache =
     (case map_of cache round_num of
        Some (c # cs) \<Rightarrow> (Some (c # cs), cache)
      | _ \<Rightarrow>
        (case (case async_get N round_num attempt of
                 None \<Rightarrow> Inl LibraryError
               | Some body \<Rightarrow> bindE (subscript body ''signature'') json_fromhex) of
           Inr sig \<Rightarrow> (Some sig, if sig \<noteq> [] then AList.update round_num sig cache else cache)
         | Inl _ \<Rightarrow>
           (case sync_get N round_num attempt of
              None \<Rightarrow> (None, cache)
            | Some js \<Rightarrow>
                (case dict_get js ''signature'' of
                   Inl _ \<Rightarrow> (None, cache)
                 | Inr field \<Rightarrow>
                     let sig_hex = (case field of None \<Rightarrow> JStr [] | Some v \<Rightarrow> v)
                     in if truthy sig_hex
                        then (case json_fromhex sig_hex of
                                Inl _ \<Rightarrow> (None, cache)
                              | Inr sig \<Rightarrow> (Some sig, AList.update round_num sig cache))
                        else (None, cache)))))"

text \<open>The retry loop of \<^verbatim>\<open>_work\<close>: at most \<^verbatim>\<open>DRAND_SIGNATURE_RETRIES\<close> attempts, while the
  signature is absent or empty. The third component counts the calls of
  \<^verbatim>\<open>_get_drand_signature\<close>.\<close>

definition DRAND_SIGNATURE_RETRIES :: nat where
  "DRAND_SIGNATURE_RETRIES = 3"

fun fetch_signature ::
  "net \<Rightarrow> int \<Rightarrow> nat \<Rightarrow> nat \<Rightarrow> bytes option \<Rightarrow> (int \<times> bytes) list \<Rightarrow>
   bytes option \<times> (int \<times> bytes) list \<times> nat" where
  "fetch_signature N rnd 0 attempts sig cache = (sig, cache, 0)"
| "fetch_signature N rnd (Suc left) attempts sig cache =
     (case get_drand_signature N attempts rnd cache of
        (Some (b # bs), cache') \<Rightarrow> (Some (b # bs), cache', 1)
      | (sig', cache') \<Rightarrow>
          (case fetch_signature N rnd left (Suc attempts) sig' cache' of
             (sig'', cache'', calls) \<Rightarrow> (sig'', cache'', Suc calls)))"

text \<open>
  The scan of the pending payloads. An item is a timestep, a hotkey, the decoded payload
  and its version (2, 1, or 0 for neither).
\<close>

type_synonym item = "nat \<times> string \<times> json \<times> nat"

definition parse_raw :: "lib \<Rightarrow> bytes \<Rightarrow> json" where
  "parse_raw L raw =
     (if raw = [] then JDict []
      else (case utf8_decode L raw of
          None \<Rightarrow> JDict []
        | Some s \<Rightarrow> (case json_loads L s of None \<Rightarrow> JDict [] | Some data \<Rightarrow> data)))"

text \<open>\<^verbatim>\<open>x == 2\<close> for a decoded JSON value.\<close>

fun eq_two :: "json \<Rightarrow> bool" where
  "eq_two (JInt i) = (i = 2)"
| "eq_two (JFloat (Finite r)) = (r = 2)"
| "eq_two _ = False"

fun payload_version :: "json \<Rightarrow> nat" where
  "payload_version (JDict kvs) =
     (if (case map_of kvs ''v'' of None \<Rightarrow> False | Some v \<Rightarrow> eq_two v) then 2
      else if ''ciphertext'' \<in> fst ` set kvs then 1 else 0)"
| "payload_version _ = 0"

text \<open>\<^verbatim>\<open>int(data.get("round", 0))\<close> inside \<^verbatim>\<open>try\<close> with
  \<^verbatim>\<open>except (TypeError, ValueError): rnd_key = 0\<close>. Any other exception leaves the
  handler.\<close>

definition round_key :: "lib \<Rightarrow> json \<Rightarrow> py_exc + int" where
  "round_key L data =
     bindE (dict_get data ''round'') (\<lambda>r.
       case py_int L (case r of None \<Rightarrow> JInt 0 | Some v \<Rightarrow> v) of
         Inr i \<Rightarrow> Inr i
       | Inl TypeError \<Rightarrow> Inr 0
       | Inl ValueError \<Rightarrow> Inr 0
       | Inl e \<Rightarrow> Inl e)"

text \<open>\<^verbatim>\<open>rounds[rnd_key].append(x)\<close> on a \<^verbatim>\<open>defaultdict(list)\<close>.\<close>

definition append_round :: "int \<Rightarrow> item \<Rightarrow> (int \<times> item list) list \<Rightarrow> (int \<times> item list) list" where
  "append_round rnd_key x rounds =
     AList.update rnd_key ((case map_of rounds rnd_key of None \<Rightarrow> [] | Some xs \<Rightarrow> xs) @ [x]) rounds"

type_synonym scan = "(nat \<times> string) list \<times> (int \<times> item list) list"

definition scan_entry :: "lib \<Rightarrow> nat \<Rightarrow> string \<times> bytes \<Rightarrow> scan \<Rightarrow> py_exc + scan" where
  "scan_entry L ts hk_raw acc =
     (case (hk_raw, acc) of ((hk, raw), (mature, rounds)) \<Rightarrow>
        let data = parse_raw L raw; version = payload_version data
        in if version = 0 then Inr (mature @ [(ts, hk)], rounds)
           else bindE (round_key L data) (\<lambda>rnd_key.
             Inr (mature @ [(ts, hk)], append_round rnd_key (ts, hk, data, version) rounds)))"

fun foldE :: "('a \<Rightarrow> 's \<Rightarrow> 'e + 's) \<Rightarrow> 'a list \<Rightarrow> 's \<Rightarrow> 'e + 's" where
  "foldE f [] s = Inr s"
| "foldE f (x # xs) s = bindE (f x s) (foldE f xs)"

definition MATURITY :: int where
  "MATURITY = 300"

definition scan_timestep ::
  "lib \<Rightarrow> int list \<Rightarrow> int \<Rightarrow> nat \<times> (string \<times> bytes) list \<Rightarrow> scan \<Rightarrow> py_exc + scan" where
  "scan_timestep L blks current_block ts_by_hk acc =
     (case ts_by_hk of (ts, by_hk) \<Rightarrow>
        if ts < length blks
        then (if current_block - blks ! ts \<ge> MATURITY then foldE (scan_entry L ts) by_hk acc
              else Inr acc)
        else Inl IndexError)"

definition scan_pending ::
  "lib \<Rightarrow> int list \<Rightarrow> (nat \<times> (string \<times> bytes) list) list \<Rightarrow> py_exc + scan" where
  "scan_pending L blks payloads =
     (if blks = [] then Inl IndexError
      else foldE (scan_timestep L blks (last blks)) payloads ([], []))"

text \<open>
  The work on one round group. \<^verbatim>\<open>str.rsplit(":::", 1)\<close> splits at the last occurrence of
  the separator; unpacking its result into two names raises when there is none.
\<close>

fun split_first :: "string \<Rightarrow> string \<Rightarrow> (string \<times> string) option" where
  "split_first sep [] = (if sep = [] then Some ([], []) else None)"
| "split_first sep (c # cs) =
     (if prefix sep (c # cs) then Some ([], drop (length sep) (c # cs))
      else map_option (\<lambda>ab. (c # fst ab, snd ab)) (split_first sep cs))"

definition rsplit_last :: "string \<Rightarrow> string \<Rightarrow> py_exc + string \<times> string" where
  "rsplit_last sep s =
     (case split_first (rev sep) (rev s) of
        None \<Rightarrow> Inl ValueError
      | Some (after, before) \<Rightarrow> Inr (rev before, rev after))"

definition v1_plaintext :: "lib \<Rightarrow> json \<Rightarrow> bytes \<Rightarrow> py_exc + string" where
  "v1_plaintext L data sig =
     bindE (hex_field data [''ciphertext'']) (\<lambda>ct.
     bindE (tld L ct sig) (\<lambda>out.
       case out of
         TldStr s \<Rightarrow> Inl AttributeError
       | TldBytes b \<Rightarrow> (case utf8_decode L b of None \<Rightarrow> Inl UnicodeDecodeError | Some pt \<Rightarrow> Inr pt)))"

text \<open>The V1 branch of \<^verbatim>\<open>_work\<close>: every exception leaves the zero vectors.\<close>

definition item_vecs_v1 :: "lib \<Rightarrow> config \<Rightarrow> string \<Rightarrow> json \<Rightarrow> bytes \<Rightarrow> vecs" where
  "item_vecs_v1 L cfg hk data sig =
     (case bindE (v1_plaintext L data sig) (\<lambda>pt.
            bindE (rsplit_last '':::'' pt) (\<lambda>parts.
              if snd parts = hk
              then (case json_loads L (map (\<lambda>c. if c = CHR 0x27 then CHR 0x22 else c) (fst parts)) of
                      None \<Rightarrow> Inl ValueError
                    | Some sub \<Rightarrow> Inr (validate_submission cfg sub))
              else Inr (zero_vecs cfg))) of
        Inl _ \<Rightarrow> zero_vecs cfg
      | Inr vecs \<Rightarrow> vecs)"

text \<open>The V2 branch: an absent or empty plaintext, a plaintext that is not the JSON
  object of this hotkey, and any exception leave the zero vectors.\<close>

definition item_vecs_v2 :: "lib \<Rightarrow> config \<Rightarrow> string \<Rightarrow> json \<Rightarrow> bytes \<Rightarrow> vecs" where
  "item_vecs_v2 L cfg hk data sig =
     (case decrypt_v2_payload L cfg data (Some sig) of
        Inr (Some (b # bs)) \<Rightarrow>
          (case utf8_decode L (b # bs) of
             None \<Rightarrow> zero_vecs cfg
           | Some s \<Rightarrow>
               (case json_loads L s of
                  Some (JDict kvs) \<Rightarrow>
                    if map_of kvs ''hotkey'' = Some (JStr hk) then validate_submission cfg (JDict kvs)
                    else zero_vecs cfg
                | _ \<Rightarrow> zero_vecs cfg))
      | _ \<Rightarrow> zero_vecs cfg)"

fun ciphertext_is_str :: "json \<Rightarrow> bool" where
  "ciphertext_is_str (JDict kvs) = (case map_of kvs ''ciphertext'' of Some (JStr s) \<Rightarrow> True | _ \<Rightarrow> False)"
| "ciphertext_is_str _ = False"

type_synonym dec = "(nat \<times> (string \<times> vecs) list) list"

text \<open>\<^verbatim>\<open>dec.setdefault(ts, {})[hk] = vecs\<close>\<close>

definition dec_store :: "nat \<Rightarrow> string \<Rightarrow> vecs \<Rightarrow> dec \<Rightarrow> dec" where
  "dec_store ts hk vecs dec =
     AList.update ts (AList.update hk vecs (case map_of dec ts of None \<Rightarrow> [] | Some by_hk \<Rightarrow> by_hk)) dec"

definition item_vecs :: "lib \<Rightarrow> config \<Rightarrow> bytes option \<Rightarrow> item \<Rightarrow> vecs" where
  "item_vecs L cfg sig it =
     (case it of (ts, hk, data, version) \<Rightarrow>
        (case sig of
           Some (b # bs) \<Rightarrow>
             if version = 1 \<and> ciphertext_is_str data then item_vecs_v1 L cfg hk data (b # bs)
             else if version = 2 then item_vecs_v2 L cfg hk data (b # bs)
             else zero_vecs cfg
         | _ \<Rightarrow> zero_vecs cfg))"

definition work_item :: "lib \<Rightarrow> config \<Rightarrow> bytes option \<Rightarrow> item \<Rightarrow> dec \<Rightarrow> dec" where
  "work_item L cfg sig it dec = dec_store (fst it) (fst (snd it)) (item_vecs L cfg sig it) dec"

text \<open>
  \<^verbatim>\<open>_work(rnd, items, sess)\<close> on the pass state: the decrypt results \<open>dec\<close>, the signature
  cache, and the rounds for which \<^verbatim>\<open>_get_drand_signature\<close> was called, in order. The
  workers of a batch are run one after the other, in the order of \<^verbatim>\<open>rounds.items()\<close>;
  they write disjoint entries of \<open>dec\<close>.
\<close>

type_synonym pass = "dec \<times> (int \<times> bytes) list \<times> int list"

definition work :: "lib \<Rightarrow> net \<Rightarrow> config \<Rightarrow> int \<times> item list \<Rightarrow> pass \<Rightarrow> pass" where
  "work L N cfg rnd_items ps =
     (case (rnd_items, ps) of ((rnd, items), (dec, cache, fetched)) \<Rightarrow>
        (case (if rnd > 0 then fetch_signature N rnd DRAND_SIGNATURE_RETRIES 0 None cache
               else (None, cache, 0)) of
           (sig, cache', calls) \<Rightarrow>
             (fold (work_item L cfg sig) items dec, cache', fetched @ replicate calls rnd)))"

definition decrypt_pass ::
  "lib \<Rightarrow> net \<Rightarrow> config \<Rightarrow> (int \<times> item list) list \<Rightarrow> (int \<times> bytes) list \<Rightarrow> pass" where
  "decrypt_pass L N cfg rounds cache = fold (work L N cfg) rounds ([], cache, [])"

text \<open>
  The merge under the lock. A failing step (a ticker that is no key of
  \<^verbatim>\<open>self.challenges\<close>, a sampling interval of zero) raises with the embeddings written so
  far.
\<close>

type_synonym chs = "(string \<times> challenge_data) list"

definition merge_vec :: "lib \<Rightarrow> int \<Rightarrow> string \<Rightarrow> string \<times> json list \<Rightarrow> chs \<Rightarrow> py_exc \<times> chs + chs" where
  "merge_vec L i hk t_vec cs =
     (case t_vec of (t, vec) \<Rightarrow>
        if list_ex ne_zero vec
        then (case map_of cs t of
            None \<Rightarrow> Inl (KeyError, cs)
          | Some ch \<Rightarrow> Inr (AList.update t (set_emb L i hk vec ch) cs))
        else Inr cs)"

definition merge_hotkey :: "lib \<Rightarrow> int \<Rightarrow> string \<times> vecs \<Rightarrow> chs \<Rightarrow> py_exc \<times> chs + chs" where
  "merge_hotkey L i hk_vecs cs = foldE (merge_vec L i (fst hk_vecs)) (snd hk_vecs) cs"

definition merge_timestep ::
  "lib \<Rightarrow> config \<Rightarrow> int list \<Rightarrow> nat \<times> (string \<times> vecs) list \<Rightarrow> chs \<Rightarrow> py_exc \<times> chs + chs" where
  "merge_timestep L cfg blks ts_by_hk cs =
     (case ts_by_hk of (ts, by_hk) \<Rightarrow>
        if \<not> ts < length blks then Inl (IndexError, cs)
        else if SAMPLE_EVERY cfg = 0 then Inl (ZeroDivisionError, cs)
        else if blks ! ts mod SAMPLE_EVERY cfg \<noteq> 0 then Inr cs
        else foldE (merge_hotkey L (blks ! ts div SAMPLE_EVERY cfg)) by_hk cs)"

definition merge_dec :: "lib \<Rightarrow> config \<Rightarrow> int list \<Rightarrow> dec \<Rightarrow> chs \<Rightarrow> py_exc \<times> chs + chs" where
  "merge_dec L cfg blks dec cs = foldE (merge_timestep L cfg blks) dec cs"

text \<open>The removal of a mature entry, and of its timestep when that is left empty.\<close>

definition pop_mature ::
  "nat \<times> string \<Rightarrow> (nat \<times> (string \<times> bytes) list) list \<Rightarrow> (nat \<times> (string \<times> bytes) list) list" where
  "pop_mature ts_hk raw =
     (case map_of raw (fst ts_hk) of
        None \<Rightarrow> raw
      | Some by_hk \<Rightarrow>
          if AList.delete (snd ts_hk) by_hk = [] then AList.delete (fst ts_hk) raw
          else AList.update (fst ts_hk) (AList.delete (snd ts_hk) by_hk) raw)"

text \<open>
  \<^verbatim>\<open>DataLog.process_pending_payloads\<close>, with the rounds for which a signature was
  requested. The counters in \<^verbatim>\<open>stats\<close> are only logged and are left out. An exception
  of the scan leaves the ledger as it was.
\<close>

definition process_pending_payloads ::
  "lib \<Rightarrow> net \<Rightarrow> config \<Rightarrow> datalog \<Rightarrow> datalog outcome \<times> int list" where
  "process_pending_payloads L N cfg st =
     (if raw_payloads st = [] then (Returned st, [])
      else (case scan_pending L (blocks st) (raw_payloads st) of
          Inl e \<Rightarrow> (Raised e st, [])
        | Inr (mature, rounds) \<Rightarrow>
            if mature = [] then (Returned st, [])
            else (case decrypt_pass L N cfg rounds (drand_cache st) of
                (dec, cache, fetched) \<Rightarrow>
                  (case merge_dec L cfg (blocks st) dec (challenges st) of
                     Inl (e, cs) \<Rightarrow> (Raised e (st\<lparr>challenges := cs, drand_cache := cache\<rparr>), fetched)
                   | Inr cs \<Rightarrow>
                       (Returned (st\<lparr>challenges := cs, drand_cache := cache,
                          raw_payloads := fold pop_mature mature (raw_payloads st)\<rparr>), fetched)))))"

section \<open>Sequences of ledger operations\<close>

text \<open>
  The operations the validator's loops call on the ledger. Their callers catch an
  exception and go on, so the ledger after an operation is the one it left, whether it
  returned or raised.
\<close>

datatype ledger_op =
  AppendStep int "(string \<times> pyfloat) list" "(string \<times> json) list" "string list"
  | ProcessPending net
  | PruneHotkeys "string list"

fun apply_op :: "lib \<Rightarrow> config \<Rightarrow> ledger_op \<Rightarrow> datalog \<Rightarrow> datalog" where
  "apply_op L cfg (AppendStep block prices payloads mg_hotkeys) st =
     state_of (append_step L cfg block prices payloads mg_hotkeys st)"
| "apply_op L cfg (ProcessPending N) st = state_of (fst (process_pending_payloads L N cfg st))"
| "apply_op L cfg (PruneHotkeys active) st = prune_hotkeys active st"

definition run_ops :: "lib \<Rightarrow> config \<Rightarrow> ledger_op list \<Rightarrow> datalog \<Rightarrow> datalog" where
  "run_ops L cfg ops st = fold (apply_op L cfg) ops st"

text \<open>The blocks passed to \<^verbatim>\<open>append_step\<close> by a sequence of operations, in order.\<close>

fun appended_blocks :: "ledger_op list \<Rightarrow> int list" where
  "appended_blocks [] = []"
| "appended_blocks (AppendStep block prices payloads mg_hotkeys # ops) = block # appended_blocks ops"
| "appended_blocks (_ # ops) = appended_blocks ops"

text \<open>
  The embeddings a merge writes, as the specification describes them: for every
  decrypted timestep whose block is a multiple of the sampling interval, every hotkey
  and every challenge whose vector has a non-zero element, one call of \<^verbatim>\<open>set_emb\<close> at
  the sample index of the block.
\<close>

type_synonym emb_write = "string \<times> int \<times> string \<times> json list"

definition emb_writes_hotkey :: "int \<Rightarrow> string \<times> vecs \<Rightarrow> emb_write list" where
  "emb_writes_hotkey i hk_vecs =
     map (\<lambda>t_vec. (fst t_vec, i, fst hk_vecs, snd t_vec))
       (filter (\<lambda>t_vec. list_ex ne_zero (snd t_vec)) (snd hk_vecs))"

definition emb_writes_timestep :: "config \<Rightarrow> int list \<Rightarrow> nat \<times> (string \<times> vecs) list \<Rightarrow> emb_write list" where
  "emb_writes_timestep cfg blks ts_by_hk =
     (if blks ! fst ts_by_hk mod SAMPLE_EVERY cfg = 0
      then concat (map (emb_writes_hotkey (blks ! fst ts_by_hk div SAMPLE_EVERY cfg)) (snd ts_by_hk))
      else [])"

definition emb_writes :: "config \<Rightarrow> int list \<Rightarrow> dec \<Rightarrow> emb_write list" where
  "emb_writes cfg blks dec = concat (map (emb_writes_timestep cfg blks) dec)"

definition apply_write :: "lib \<Rightarrow> emb_write \<Rightarrow> chs \<Rightarrow> chs" where
  "apply_write L w cs =
     (case w of (t, i, hk, vec) \<Rightarrow>
        (case map_of cs t of None \<Rightarrow> cs | Some ch \<Rightarrow> AList.update t (set_emb L i hk vec ch) cs))"

text \<open>The decrypt results a merge can take: timesteps of the block list, and vectors
  for tickers the ledger has.\<close>

definition dec_ok :: "int list \<Rightarrow> chs \<Rightarrow> dec \<Rightarrow> bool" where
  "dec_ok blks cs dec \<longleftrightarrow>
     (\<forall>ts_by_hk \<in> set dec. fst ts_by_hk < length blks \<and>
        (\<forall>hk_vecs \<in> set (snd ts_by_hk). fst ` set (snd hk_vecs) \<subseteq> fst ` set cs))"

text \<open>A decrypt result for the demo configuration: at timestep 0 (block 100) a vector
  with a non-zero element and an all-zero one, at timestep 1 (block 150, not sampled) a
  non-zero vector.\<close>

definition demo_dec :: dec where
  "demo_dec =
     [(0, [(''hk1'', [(''BTC'', [JInt 1, JFloat (Finite (- 1 / 2))]), (''ETH'', [zero_float])])]),
      (1, [(''hk1'', [(''BTC'', [JInt 1, JInt 1]), (''ETH'', [JInt 1])])])]"

section \<open>Dataset construction\<close>

text \<open>Comparisons of Python floats: \<^verbatim>\<open>x <= 0.0\<close> and \<^verbatim>\<open>a != b\<close>. NaN is neither below
  nor equal to anything.\<close>

fun float_le_zero :: "pyfloat \<Rightarrow> bool" where
  "float_le_zero (Finite r) = (r \<le> 0)"
| "float_le_zero NegInf = True"
| "float_le_zero _ = False"

definition float_ne :: "pyfloat \<Rightarrow> pyfloat \<Rightarrow> bool" where
  "float_ne a b \<longleftrightarrow> a = NaN \<or> b = NaN \<or> a \<noteq> b"

text \<open>
  The running state of the loop over the samples: the last price seen and the streak of
  samples that repeat it. A sample without a price leaves both as they are.
\<close>

type_synonym streak = "pyfloat option \<times> nat"

definition streak_step :: "pyfloat option \<Rightarrow> streak \<Rightarrow> streak" where
  "streak_step price_now ps =
     (case price_now of
        None \<Rightarrow> ps
      | Some p \<Rightarrow>
          (case fst ps of
             None \<Rightarrow> (Some p, 0)
           | Some prev \<Rightarrow> if float_ne p prev then (Some p, 0) else (fst ps, snd ps + 1)))"

text \<open>\<^verbatim>\<open>int(getattr(config, "MAX_UNCHANGED_TIMESTEPS", 0) or 0)\<close>\<close>

definition max_unchanged :: "config \<Rightarrow> int" where
  "max_unchanged cfg = (case MAX_UNCHANGED_TIMESTEPS cfg of None \<Rightarrow> 0 | Some v \<Rightarrow> v)"

text \<open>
  The feature matrix of a sample: a row of zeros for every hotkey of the column layout,
  overwritten by the hotkey's embedding. numpy accepts a row of the challenge's
  dimension, broadcasts a row of length one, and raises for any other length.
\<close>

definition fit_row :: "nat \<Rightarrow> pyfloat list \<Rightarrow> py_exc + pyfloat list" where
  "fit_row d arr =
     (if length arr = d then Inr arr
      else if length arr = 1 then Inr (replicate d (hd arr))
      else Inl ValueError)"

fun fit_rows :: "nat \<Rightarrow> (string \<times> pyfloat list) list \<Rightarrow> py_exc + (string \<times> pyfloat list) list" where
  "fit_rows d [] = Inr []"
| "fit_rows d ((hk, arr) # embs) =
     bindE (fit_row d arr) (\<lambda>row. bindE (fit_rows d embs) (\<lambda>rows. Inr ((hk, row) # rows)))"

definition sample_matrix ::
  "nat \<Rightarrow> string list \<Rightarrow> (string \<times> pyfloat list) list \<Rightarrow> py_exc + pyfloat list" where
  "sample_matrix d all_hks embs =
     bindE (fit_rows d embs) (\<lambda>rows.
       Inr (concat (map (\<lambda>hk. case map_of rows hk of None \<Rightarrow> replicate d (Finite 0) | Some row \<Rightarrow> row)
                     all_hks)))"

definition any_nonzero :: "(string \<times> pyfloat list) list \<Rightarrow> bool" where
  "any_nonzero embs = list_ex (\<lambda>kv. list_ex (\<lambda>x. x \<noteq> Finite 0) (snd kv)) embs"

text \<open>\<^verbatim>\<open>(p1 - p0) / p0 if p0 else 0.0\<close>\<close>

definition label :: "lib \<Rightarrow> pyfloat \<Rightarrow> pyfloat \<Rightarrow> pyfloat" where
  "label L p0 p1 = (if p0 = Finite 0 then Finite 0 else float_div L (float_sub L p1 p0) p0)"

text \<open>
  The loop of \<^verbatim>\<open>get_training_data_sync\<close> over the sorted samples of one challenge. Each
  emitted row carries its sample index, which the code does not keep.
\<close>

type_synonym row = "int \<times> pyfloat list \<times> pyfloat"

text \<open>\<^verbatim>\<open>if max_block_number and block > max_block_number: break\<close>\<close>

definition ceiling_reached :: "config \<Rightarrow> int option \<Rightarrow> int \<Rightarrow> bool" where
  "ceiling_reached cfg max_block_number i =
     (case max_block_number of None \<Rightarrow> False | Some m \<Rightarrow> m \<noteq> 0 \<and> i * SAMPLE_EVERY cfg > m)"

text \<open>The body of the loop after the streak has been updated: \<open>None\<close> where the code
  says \<^verbatim>\<open>continue\<close>, the row where it appends one.\<close>

definition sample_row ::
  "lib \<Rightarrow> config \<Rightarrow> challenge_data \<Rightarrow> string list \<Rightarrow> streak \<Rightarrow> int \<times> sample \<Rightarrow> py_exc + row option" where
  "sample_row L cfg ch all_hks ps kv =
     (if max_unchanged cfg > 0 \<and> int (snd ps) > max_unchanged cfg then Inr None
      else (case (map_of (sidx ch) (fst kv + cd_blocks_ahead ch div SAMPLE_EVERY cfg), price (snd kv)) of
          (Some future, Some p0) \<Rightarrow>
            (case price future of
               None \<Rightarrow> Inr None
             | Some p1 \<Rightarrow>
                 if float_le_zero p0 \<or> float_le_zero p1 then Inr None
                 else if emb (snd kv) = [] then Inr None
                 else bindE (sample_matrix (cd_dim ch) all_hks (emb (snd kv))) (\<lambda>mat.
                   if \<not> any_nonzero (emb (snd kv)) then Inr None
                   else Inr (Some (fst kv, mat, label L p0 p1))))
        | _ \<Rightarrow> Inr None))"

fun rows_loop ::
  "lib \<Rightarrow> config \<Rightarrow> challenge_data \<Rightarrow> string list \<Rightarrow> int option \<Rightarrow> streak \<Rightarrow>
   (int \<times> sample) list \<Rightarrow> py_exc + row list" where
  "rows_loop L cfg ch all_hks max_block_number ps [] = Inr []"
| "rows_loop L cfg ch all_hks max_block_number ps (kv # rest) =
     (if ceiling_reached cfg max_block_number (fst kv) then Inr []
      else bindE (sample_row L cfg ch all_hks (streak_step (price (snd kv)) ps) kv) (\<lambda>r.
           bindE (rows_loop L cfg ch all_hks max_block_number (streak_step (price (snd kv)) ps) rest)
             (\<lambda>rows. Inr (case r of None \<Rightarrow> rows | Some x \<Rightarrow> x # rows))))"

text \<open>\<^verbatim>\<open>sorted({hk for d in ch.sidx.values() for hk in d["emb"].keys()})\<close>\<close>

definition all_hotkeys :: "challenge_data \<Rightarrow> string list" where
  "all_hotkeys ch = sort (remdups (concat (map (\<lambda>kv. map fst (emb (snd kv))) (sidx ch))))"

definition training_rows :: "lib \<Rightarrow> config \<Rightarrow> int option \<Rightarrow> challenge_data \<Rightarrow> py_exc + row list" where
  "training_rows L cfg max_block_number ch =
     (if SAMPLE_EVERY cfg = 0 then Inl ZeroDivisionError
      else rows_loop L cfg ch (all_hotkeys ch) max_block_number (None, 0) (sort_key fst (sidx ch)))"

text \<open>One iteration of the loop over the challenges: \<open>res[t]\<close> is the feature matrix with
  the hotkey index, and the labels as \<^verbatim>\<open>float32\<close>.\<close>

type_synonym dataset = "(pyfloat list list \<times> (string \<times> nat) list) \<times> pyfloat list"

definition challenge_dataset ::
  "lib \<Rightarrow> config \<Rightarrow> int option \<Rightarrow> string \<times> challenge_data \<Rightarrow> (string \<times> dataset) list \<Rightarrow>
   py_exc + (string \<times> dataset) list" where
  "challenge_dataset L cfg max_block_number t_ch res =
     (if SAMPLE_EVERY cfg = 0 then Inl ZeroDivisionError
      else if all_hotkeys (snd t_ch) = [] then Inr res
      else bindE (training_rows L cfg max_block_number (snd t_ch)) (\<lambda>rows.
        if rows = [] then Inr res
        else Inr (AList.update (fst t_ch)
               ((map (\<lambda>r. fst (snd r)) rows, zip (all_hotkeys (snd t_ch)) [0..<length (all_hotkeys (snd t_ch))]),
                map (\<lambda>r. float32 L (snd (snd r))) rows) res)))"

definition get_training_data_sync ::
  "lib \<Rightarrow> config \<Rightarrow> int option \<Rightarrow> datalog \<Rightarrow> py_exc + (string \<times> dataset) list" where
  "get_training_data_sync L cfg max_block_number st =
     foldE (challenge_dataset L cfg max_block_number) (challenges st) []"

text \<open>The samples a call emits for a challenge: none when it raises.\<close>

definition emitted :: "lib \<Rightarrow> config \<Rightarrow> int option \<Rightarrow> challenge_data \<Rightarrow> int list" where
  "emitted L cfg max_block_number ch =
     (case training_rows L cfg max_block_number ch of Inl e \<Rightarrow> [] | Inr rows \<Rightarrow> map fst rows)"

text \<open>The streak of a sample, as the loop has it after reading the sample: the state
  after the samples up to and including it, in ascending order.\<close>

definition streak_at :: "challenge_data \<Rightarrow> int \<Rightarrow> nat" where
  "streak_at ch i =
     snd (fold (\<lambda>kv. streak_step (price (snd kv)))
       (filter (\<lambda>kv. fst kv \<le> i) (sort_key fst (sidx ch))) (None, 0))"

text \<open>A series of five samples with the same price and the same embedding.\<close>

definition demo_series :: challenge_data where
  "demo_series = \<lparr>cd_dim = 2, cd_blocks_ahead = 300,
     sidx = map (\<lambda>i. (i, \<lparr>hotkeys = [''hk1''], price = Some (Finite 5),
                           emb = [(''hk1'', [Finite 1, Finite (- 1 / 2)])]\<rparr>)) [1, 2, 3, 4, 5]\<rparr>"

section \<open>Persistence\<close>

text \<open>
  \<^verbatim>\<open>pickle\<close>, \<^verbatim>\<open>gzip\<close> and the file system are parameters: what pickling a ledger gives
  or raises, what unpickling a file content gives or raises, compression, whether a
  path can be opened for writing, and the content a failed dump leaves behind. The
  file system maps a path to the content of the file, if there is one.
\<close>

record codec =
  pickle_dumps :: "datalog \<Rightarrow> py_exc + bytes"
  pickle_loads :: "bytes \<Rightarrow> py_exc + datalog"
  gzip_compress :: "bytes \<Rightarrow> bytes"
  gzip_decompress :: "bytes \<Rightarrow> py_exc + bytes"
  writable :: "string \<Rightarrow> bool"
  partial_dump :: "string \<Rightarrow> datalog \<Rightarrow> bytes"

type_synonym files = "string \<Rightarrow> bytes option"

text \<open>\<^verbatim>\<open>DataLog.save(path)\<close>: \<^verbatim>\<open>gzip.open\<close> for a path that ends with \<^verbatim>\<open>.gz\<close>, \<^verbatim>\<open>open\<close>
  otherwise.\<close>

definition save :: "codec \<Rightarrow> string \<Rightarrow> datalog \<Rightarrow> files \<Rightarrow> files outcome" where
  "save C path st fs =
     (if \<not> writable C path then Raised OSError fs
      else (case pickle_dumps C st of
          Inl e \<Rightarrow> Raised e (fs(path \<mapsto> partial_dump C path st))
        | Inr b \<Rightarrow> Returned (fs(path \<mapsto> (if suffix ''.gz'' path then gzip_compress C b else b)))))"

text \<open>\<^verbatim>\<open>DataLog.load(path)\<close>: a fresh ledger when the file is missing and when reading it
  raises.\<close>

definition load :: "codec \<Rightarrow> config \<Rightarrow> string \<Rightarrow> files \<Rightarrow> datalog" where
  "load C cfg path fs =
     (case fs path of
        None \<Rightarrow> datalog_init cfg
      | Some content \<Rightarrow>
          (case bindE (if suffix ''.gz'' path then gzip_decompress C content else Inr content)
                  (pickle_loads C) of
             Inl e \<Rightarrow> datalog_init cfg
           | Inr obj \<Rightarrow> obj))"

text \<open>The libraries round-trip: unpickling what pickling gave returns the ledger, and
  decompressing what compressing gave returns the bytes.\<close>

definition codec_ok :: "codec \<Rightarrow> bool" where
  "codec_ok C \<longleftrightarrow>
     (\<forall>st b. pickle_dumps C st = Inr b \<longrightarrow> pickle_loads C b = Inr st) \<and>
     (\<forall>b. gzip_decompress C (gzip_compress C b) = Inr b)"

text \<open>A ledger with two blocks, a price and an embedding, and a stand-in for the
  libraries that can pickle this ledger.\<close>

definition demo_ledger :: datalog where
  "demo_ledger = \<lparr>
     blocks = [100, 400],
     challenges =
       [(''BTC'', \<lparr>cd_dim = 2, cd_blocks_ahead = 300,
           sidx = [(1, \<lparr>hotkeys = [''hk1''], price = Some (Finite 5),
                         emb = [(''hk1'', [Finite 1, Finite (- 1 / 2)])]\<rparr>)]\<rparr>),
        (''ETH'', \<lparr>cd_dim = 1, cd_blocks_ahead = 300, sidx = []\<rparr>)],
     raw_payloads = [(1, [(''hk1'', ascii ''{}'')])],
     drand_cache = [] \<rparr>"

definition demo_codec :: codec where
  "demo_codec = \<lparr>
     pickle_dumps = (\<lambda>st. if st = demo_ledger then Inr [128, 5] else Inl LibraryError),
     pickle_loads = (\<lambda>b. if b = [128, 5] then Inr demo_ledger else Inl LibraryError),
     gzip_compress = (\<lambda>b. 31 # 139 # b),
     gzip_decompress = (\<lambda>b. case b of x # y # rest \<Rightarrow>
        if x = 31 \<and> y = 139 then Inr rest else Inl LibraryError | _ \<Rightarrow> Inl LibraryError),
     writable = (\<lambda>path. True),
     partial_dump = (\<lambda>path st. []) \<rparr>"

text \<open>
  A ledger with a mature pending payload whose round is infinite: what \<^verbatim>\<open>append_step\<close>
  stores at block 100 for a miner payload \<^verbatim>\<open>{"ciphertext": "00", "round": inf}\<close> (a JSON
  round of \<^verbatim>\<open>1e999\<close> is read as \<^verbatim>\<open>inf\<close>), with a second hotkey and a second block 400.
\<close>

definition bad_round_ledger :: datalog where
  "bad_round_ledger = \<lparr>
     blocks = [100, 400],
     challenges = [(''BTC'', \<lparr>cd_dim = 2, cd_blocks_ahead = 300, sidx = []\<rparr>),
                   (''ETH'', \<lparr>cd_dim = 1, cd_blocks_ahead = 300, sidx = []\<rparr>)],
     raw_payloads =
       [(0, [(''hk1'', ascii ''{\"ciphertext\": \"00\", \"round\": Infinity}''),
             (''hk2'', ascii ''{}'')]),
        (1, [(''hk1'', ascii ''{}'')])],
     drand_cache = [] \<rparr>"

definition bad_round_ops :: "ledger_op list" where
  "bad_round_ops =
     [AppendStep 100 [] [(''hk1'', JDict [(''ciphertext'', JStr ''00''), (''round'', JFloat PosInf)])]
        [''hk1'', ''hk2''],
      AppendStep 400 [] [] [''hk1'']]"

section \<open>The submission validator is total\<close>



















section \<open>Hybrid decryption fails closed\<close>

lemma bindE_simps [simp]: "bindE (Inr x) f = f x" "bindE (Inl e) f = Inl e"
  by (simp_all add: bindE_def)

lemma bindE_Inr_iff: "bindE m f = Inr y \<longleftrightarrow> (\<exists>x. m = Inr x \<and> f x = Inr y)"
  by (cases m) simp_all

lemma payload_hk_subscript: "payload_hk payload = Inr hk \<Longrightarrow> \<exists>v. subscript payload ''hk'' = Inr v"
  by (auto simp: payload_hk_def bindE_Inr_iff)

lemma gate_Some_iff:
  "v2_binding_gate L cfg payload = Inr (Some (owner_pk, pke, bnd)) \<longleftrightarrow>
     configured_owner_pk_hex cfg \<noteq> [] \<and>
     (\<exists>po. dict_get payload ''owner_pk'' = Inr po \<and> \<not> owner_pk_differs po (configured_owner_pk_hex cfg)) \<and>
     fromhex (configured_owner_pk_hex cfg) = Inr owner_pk \<and>
     hex_field payload [''W_owner'', ''pke''] = Inr pke \<and>
     (\<exists>hk rnd. payload_hk payload = Inr hk \<and> payload_round L payload = Inr rnd \<and>
        bnd = binding L hk rnd owner_pk pke \<and> hex_field payload [''binding''] = Inr bnd)"
  (is "?l \<longleftrightarrow> ?r")
proof
  assume ?l
  then show ?r
    unfolding v2_binding_gate_def
    by (auto simp: bindE_Inr_iff split: if_splits)
next
  assume r: ?r
  then obtain hk where "payload_hk payload = Inr hk" by blast
  then obtain v where "subscript payload ''hk'' = Inr v" using payload_hk_subscript by blast
  with r show ?l
    unfolding v2_binding_gate_def by auto
qed

lemma open_Some_iff:
  "v2_open L payload sg owner_pk pke bnd = Inr (Some pt) \<longleftrightarrow>
     (\<exists>wt_ct skeK_raw shared okm nonce wo_ct c_nonce c_ct.
        hex_field payload [''W_time'', ''ct''] = Inr wt_ct \<and>
        tld L wt_ct sg = Inr skeK_raw \<and>
        length (unwrap_skeK skeK_raw) = 64 \<and>
        derive_pke L (take 32 (unwrap_skeK skeK_raw)) = Inr pke \<and>
        x25519_exchange L (take 32 (unwrap_skeK skeK_raw)) owner_pk = Inr shared \<and>
        hkdf_sha256 L 44 (ascii ''mantis-owner-wrap'') shared = Inr okm \<and>
        hex_field payload [''W_owner'', ''nonce''] = Inr nonce \<and>
        hex_field payload [''W_owner'', ''ct''] = Inr wo_ct \<and>
        chacha20poly1305_decrypt L (take 32 okm) nonce wo_ct bnd = Inr (drop 32 (unwrap_skeK skeK_raw)) \<and>
        hex_field payload [''C'', ''nonce''] = Inr c_nonce \<and>
        hex_field payload [''C'', ''ct''] = Inr c_ct \<and>
        chacha20poly1305_decrypt L (drop 32 (unwrap_skeK skeK_raw)) c_nonce c_ct bnd = Inr pt)"
  (is "?l \<longleftrightarrow> ?r")
proof
  assume ?l
  then show ?r
    unfolding v2_open_def hkdf_key_nonce_def Let_def
    by (auto simp: bindE_Inr_iff split: if_splits)
next
  assume ?r
  then show ?l
    unfolding v2_open_def hkdf_key_nonce_def Let_def by auto
qed

lemma body_Some_iff:
  "decrypt_v2_body L cfg payload sig = Inr (Some pt) \<longleftrightarrow> v2_steps_hold L cfg payload sig pt"
  (is "?l \<longleftrightarrow> ?r")
proof
  assume l: ?l
  then obtain sg where sg: "sig = Some sg" "sg \<noteq> []"
    by (auto simp: decrypt_v2_body_def split: option.splits if_splits)
  with l obtain owner_pk pke bnd where g: "v2_binding_gate L cfg payload = Inr (Some (owner_pk, pke, bnd))"
    and op: "v2_open L payload sg owner_pk pke bnd = Inr (Some pt)"
    by (auto simp: decrypt_v2_body_def bindE_Inr_iff split: option.splits)
  from g op sg show ?r
    unfolding gate_Some_iff open_Some_iff v2_steps_hold_def by blast
next
  assume ?r
  then obtain sg po owner_pk pke hk rnd wt_ct skeK_raw shared okm nonce wo_ct c_nonce c_ct
    where sg: "sig = Some sg" "sg \<noteq> []"
      and g: "configured_owner_pk_hex cfg \<noteq> []"
        "dict_get payload ''owner_pk'' = Inr po"
        "\<not> owner_pk_differs po (configured_owner_pk_hex cfg)"
        "fromhex (configured_owner_pk_hex cfg) = Inr owner_pk"
        "hex_field payload [''W_owner'', ''pke''] = Inr pke"
        "payload_hk payload = Inr hk"
        "payload_round L payload = Inr rnd"
        "hex_field payload [''binding''] = Inr (binding L hk rnd owner_pk pke)"
      and op: "hex_field payload [''W_time'', ''ct''] = Inr wt_ct"
        "tld L wt_ct sg = Inr skeK_raw"
        "length (unwrap_skeK skeK_raw) = 64"
        "derive_pke L (take 32 (unwrap_skeK skeK_raw)) = Inr pke"
        "x25519_exchange L (take 32 (unwrap_skeK skeK_raw)) owner_pk = Inr shared"
        "hkdf_sha256 L 44 (ascii ''mantis-owner-wrap'') shared = Inr okm"
        "hex_field payload [''W_owner'', ''nonce''] = Inr nonce"
        "hex_field payload [''W_owner'', ''ct''] = Inr wo_ct"
        "chacha20poly1305_decrypt L (take 32 okm) nonce wo_ct (binding L hk rnd owner_pk pke)
          = Inr (drop 32 (unwrap_skeK skeK_raw))"
        "hex_field payload [''C'', ''nonce''] = Inr c_nonce"
        "hex_field payload [''C'', ''ct''] = Inr c_ct"
        "chacha20poly1305_decrypt L (drop 32 (unwrap_skeK skeK_raw)) c_nonce c_ct
          (binding L hk rnd owner_pk pke) = Inr pt"
    unfolding v2_steps_hold_def by blast
  from g have g': "v2_binding_gate L cfg payload = Inr (Some (owner_pk, pke, binding L hk rnd owner_pk pke))"
    unfolding gate_Some_iff by blast
  from op have op': "v2_open L payload sg owner_pk pke (binding L hk rnd owner_pk pke) = Inr (Some pt)"
    unfolding open_Some_iff by blast
  from sg g' op' show ?l by (simp add: decrypt_v2_body_def)
qed

lemma decrypt_v2_payload_Some_iff:
  "decrypt_v2_payload L cfg payload sig = Inr (Some pt) \<longleftrightarrow> v2_steps_hold L cfg payload sig pt"
  unfolding body_Some_iff [symmetric] decrypt_v2_payload_def by (simp split: sum.splits)

lemma decrypt_v2_payload_returns:
  "decrypt_v2_payload L cfg payload sig = Inr (case decrypt_v2_body L cfg payload sig of Inl e \<Rightarrow> None | Inr r \<Rightarrow> r)"
  unfolding decrypt_v2_payload_def by (simp split: sum.splits)

subsection \<open>Running the model: SHA-256 of the two commitments\<close>

lemmas sha_simps = add32_def rotr_def Ch_def Maj_def bsig0_def bsig1_def ssig0_def ssig1_def

lemma replicate_numeral: "replicate (numeral k) x = x # replicate (pred_numeral k) x"
  by (simp add: numeral_eq_Suc)

lemma demo_preimage:
  "concat [encode_utf8 ''hk1'', ascii '':'', ascii (str_int 7), ascii '':'', [10, 11], ascii '':'',
           [115, 115, 115, 115]]
     = [104, 107, 49, 58, 55, 58, 10, 11, 58, 115, 115, 115, 115]"
  by (simp add: encode_utf8_def utf8_char_def ascii_def str_int_def str_nat.simps)

lemma demo_block: "be32 (sha_pad [104, 107, 49, 58, 55, 58, 10, 11, 58, 115, 115, 115, 115]) =
   [1751855418, 926550539, 980644723, 1937768448, 0, 0, 0, 0, 0, 0, 0, 0, 0, 0, 0, 104]"
  by (simp add: sha_pad_def be64_def replicate_numeral)

lemma demo_compress:
  "sha_compress H256 [1751855418, 926550539, 980644723, 1937768448, 0, 0, 0, 0, 0, 0, 0, 0, 0, 0, 0, 104] =
   [450624892, 2449025893, 81328142, 1681165857, 2454000186, 1547473777, 2406325668, 860071298]"
  by (simp add: sha_compress_def K256_def H256_def sha_simps)

lemma demo_binding:
  "binding demo_lib ''hk1'' 7 [10, 11] [115, 115, 115, 115] =
     [26, 219, 253, 124, 145, 249, 43, 101, 4, 216, 248, 14, 100, 52, 142, 33, 146, 69, 18, 58, 92, 60, 147, 113, 143, 109, 157, 164, 51, 67, 165, 130]"
  unfolding binding_def sha256_parts_def demo_preimage
  by (simp add: demo_lib_def sha256_digest_def sha256_words_def demo_block demo_compress word_bytes_def)

lemma spec_preimage:
  "encode_utf8 ''hk1'' @ ascii '':'' @ ascii (str_int 7) @ [10, 11] @ [115, 115, 115, 115]
     = [104, 107, 49, 58, 55, 10, 11, 115, 115, 115, 115]"
  by (simp add: encode_utf8_def utf8_char_def ascii_def str_int_def str_nat.simps)

lemma spec_block: "be32 (sha_pad [104, 107, 49, 58, 55, 10, 11, 115, 115, 115, 115]) =
   [1751855418, 923405171, 1936946048, 0, 0, 0, 0, 0, 0, 0, 0, 0, 0, 0, 0, 88]"
  by (simp add: sha_pad_def be64_def replicate_numeral)

lemma spec_compress:
  "sha_compress H256 [1751855418, 923405171, 1936946048, 0, 0, 0, 0, 0, 0, 0, 0, 0, 0, 0, 0, 88] =
   [4214742149, 1180101892, 1182165357, 3583846886, 3146370805, 3707451501, 3919106388, 445455873]"
  by (simp add: sha_compress_def K256_def H256_def sha_simps)

lemma demo_spec_binding:
  "spec_binding demo_lib ''hk1'' 7 [10, 11] [115, 115, 115, 115] =
     [251, 55, 220, 133, 70, 86, 237, 4, 70, 118, 105, 109, 213, 157, 41, 230, 187, 137, 206, 245, 220, 251, 56, 109, 233, 152, 209, 84, 26, 141, 30, 1]"
  unfolding spec_binding_def spec_preimage
  by (simp add: demo_lib_def sha256_digest_def sha256_words_def spec_block spec_compress word_bytes_def)

subsection \<open>Running the model: the demo payload\<close>

lemma eq_char_of_iff: "c = char_of n \<longleftrightarrow> of_char c = take_bit 8 (n::nat)"
  using char_of_eq_iff [of n c] by (auto simp del: char_of_eq_iff)

lemma demo_lib_sel:
  "tld demo_lib = (\<lambda>ct sig. if sig = ascii ''sig7'' then Inr (TldBytes ct) else Inl LibraryError)"
  "x25519_public demo_lib = (\<lambda>sk. Inr (take 4 sk))"
  "x25519_exchange demo_lib = (\<lambda>sk pk. Inr (pk @ sk))"
  "hkdf_sha256 demo_lib = (\<lambda>n info ikm. Inr (replicate n 107))"
  "chacha20poly1305_decrypt demo_lib = (\<lambda>key nonce ct aad.
        if length key = 32 \<and> length nonce = 12 \<and> take 4 ct = take 4 aad
        then Inr (drop 4 ct) else Inl LibraryError)"
  "int_of_str demo_lib = (\<lambda>s. None)"
  by (simp_all add: demo_lib_def)

lemmas demo_eval = char_of_eq_iff eq_char_of_iff
  decrypt_v2_payload_def decrypt_v2_body_def v2_binding_gate_def v2_open_def
  configured_owner_pk_hex_def owner_pk_differs_def payload_hk_def payload_round_def hex_field_def
  hkdf_key_nonce_def derive_pke_def unwrap_skeK_def decode_ascii_def
  py_strip_def py_isspace_def py_lower_def py_lower_char_def hex_space_def hex_digit_def
  demo_cfg_def demo_lib_sel demo_payload_def demo_plaintext_def ascii_def replicate_numeral

lemma decrypt_v2_payload_cases:
  "decrypt_v2_payload L cfg payload sig = Inr None \<or>
   (\<exists>pt. decrypt_v2_payload L cfg payload sig = Inr (Some pt))"
  unfolding decrypt_v2_payload_def by (auto split: sum.splits)

subsection \<open>The claims about \<^verbatim>\<open>_decrypt_v2_payload\<close>\<close>

text \<open>
  Claim C1. For every payload, signature (present or absent) and configuration,
  \<^verbatim>\<open>_decrypt_v2_payload\<close> returns: it never raises. Whatever exception the body raises
  (a missing field, malformed hex, a library error such as a failed AEAD tag) becomes
  the result \<open>None\<close>, and the result is either \<open>None\<close> or a plaintext for which every
  protocol step holds (so a wrong length or a binding mismatch gives \<open>None\<close> too).
\<close>

theorem decrypt_v2_fail_closed:
  "(\<exists>r. decrypt_v2_payload L cfg payload sig = Inr r) \<and>
   (\<forall>e. decrypt_v2_body L cfg payload sig = Inl e \<longrightarrow>
        decrypt_v2_payload L cfg payload sig = Inr None) \<and>
   (decrypt_v2_payload L cfg payload sig = Inr None \<or>
    (\<exists>pt. decrypt_v2_payload L cfg payload sig = Inr (Some pt) \<and>
          v2_steps_hold L cfg payload sig pt))"
proof (intro conjI allI impI)
  show "\<exists>r. decrypt_v2_payload L cfg payload sig = Inr r"
    by (simp add: decrypt_v2_payload_returns)
next
  fix e assume "decrypt_v2_body L cfg payload sig = Inl e"
  then show "decrypt_v2_payload L cfg payload sig = Inr None"
    by (simp add: decrypt_v2_payload_def)
next
  show "decrypt_v2_payload L cfg payload sig = Inr None \<or>
    (\<exists>pt. decrypt_v2_payload L cfg payload sig = Inr (Some pt) \<and> v2_steps_hold L cfg payload sig pt)"
    using decrypt_v2_payload_cases [of L cfg payload sig]
    by (auto simp: decrypt_v2_payload_Some_iff)
qed

theorem decrypt_v2_fail_closed_witness:
  "decrypt_v2_body demo_lib demo_cfg (JDict []) (Some (ascii ''sig7'')) = Inl KeyError \<and>
   decrypt_v2_payload demo_lib demo_cfg (JDict []) (Some (ascii ''sig7'')) = Inr None"
proof -
  have raised: "decrypt_v2_body demo_lib demo_cfg (JDict []) (Some (ascii ''sig7'')) = Inl KeyError"
    by (simp add: demo_eval)
  with decrypt_v2_fail_closed [where L = demo_lib and cfg = demo_cfg and payload = "JDict []"
      and sig = "Some (ascii ''sig7'')"]
  show ?thesis by blast
qed

text \<open>
  Claim C2, as stated: the recomputed commitment is the hash of \<open>hk\<close>, one separator,
  the round, the owner key and the ephemeral key. The code puts a separator between
  every two parts, so the two hashes differ: for \<open>hk1\<close>, round 7, owner key \<open>0a0b\<close> and
  ephemeral key \<open>ssss\<close> the code hashes \<^verbatim>\<open>hk1:7:\x0a\x0b:ssss\<close> and the stated formula
  \<^verbatim>\<open>hk1:7\x0a\x0bssss\<close>.
\<close>

theorem binding_single_separator_counterexample:
  "binding demo_lib ''hk1'' 7 [10, 11] [115, 115, 115, 115]
     \<noteq> spec_binding demo_lib ''hk1'' 7 [10, 11] [115, 115, 115, 115]"
  by (simp add: demo_binding demo_spec_binding)

text \<open>
  Claim C2, amended. The recomputed commitment is the SHA-256 hash of \<open>hk\<close>, the decimal
  round, the configured owner key and the payload's ephemeral key \<open>W_owner.pke\<close>, with a
  separator \<open>:\<close> between every two of them. When the steps before the comparison
  succeed, decryption passes the comparison exactly when the declared binding equals
  this hash, and a payload whose declared binding differs decrypts to \<open>None\<close>; any
  payload that decrypts declares the recomputed binding.
\<close>

theorem v2_binding_commitment:
  "binding L hk rnd owner_pk pke =
     sha256 L (encode_utf8 hk @ ascii '':'' @ ascii (str_int rnd) @ ascii '':'' @ owner_pk @ ascii '':'' @ pke) \<and>
   (configured_owner_pk_hex cfg \<noteq> [] \<and>
    dict_get payload ''owner_pk'' = Inr po \<and>
    \<not> owner_pk_differs po (configured_owner_pk_hex cfg) \<and>
    fromhex (configured_owner_pk_hex cfg) = Inr owner_pk \<and>
    hex_field payload [''W_owner'', ''pke''] = Inr pke \<and>
    payload_hk payload = Inr hk \<and>
    payload_round L payload = Inr rnd \<and>
    hex_field payload [''binding''] = Inr declared \<longrightarrow>
      v2_binding_gate L cfg payload =
        Inr (if declared = binding L hk rnd owner_pk pke then Some (owner_pk, pke, declared) else None) \<and>
      (declared \<noteq> binding L hk rnd owner_pk pke \<longrightarrow>
         decrypt_v2_payload L cfg payload sig = Inr None)) \<and>
   (\<forall>pt. decrypt_v2_payload L cfg payload sig = Inr (Some pt) \<longrightarrow>
      (\<exists>hk' rnd' owner_pk' pke'.
         payload_hk payload = Inr hk' \<and> payload_round L payload = Inr rnd' \<and>
         fromhex (configured_owner_pk_hex cfg) = Inr owner_pk' \<and>
         hex_field payload [''W_owner'', ''pke''] = Inr pke' \<and>
         hex_field payload [''binding''] = Inr (binding L hk' rnd' owner_pk' pke')))"
proof (intro conjI impI allI)
  show "binding L hk rnd owner_pk pke =
     sha256 L (encode_utf8 hk @ ascii '':'' @ ascii (str_int rnd) @ ascii '':'' @ owner_pk @ ascii '':'' @ pke)"
    by (simp add: binding_def sha256_parts_def)
next
  assume h: "configured_owner_pk_hex cfg \<noteq> [] \<and>
    dict_get payload ''owner_pk'' = Inr po \<and>
    \<not> owner_pk_differs po (configured_owner_pk_hex cfg) \<and>
    fromhex (configured_owner_pk_hex cfg) = Inr owner_pk \<and>
    hex_field payload [''W_owner'', ''pke''] = Inr pke \<and>
    payload_hk payload = Inr hk \<and>
    payload_round L payload = Inr rnd \<and>
    hex_field payload [''binding''] = Inr declared"
  then obtain v where v: "subscript payload ''hk'' = Inr v"
    using payload_hk_subscript by blast
  from h v show gate: "v2_binding_gate L cfg payload =
      Inr (if declared = binding L hk rnd owner_pk pke then Some (owner_pk, pke, declared) else None)"
    by (simp add: v2_binding_gate_def)
  assume "declared \<noteq> binding L hk rnd owner_pk pke"
  with gate have "v2_binding_gate L cfg payload = Inr None" by simp
  then have "decrypt_v2_body L cfg payload sig = Inr None"
    by (simp add: decrypt_v2_body_def split: option.splits)
  then show "decrypt_v2_payload L cfg payload sig = Inr None"
    by (simp add: decrypt_v2_payload_def)
next
  fix pt assume "decrypt_v2_payload L cfg payload sig = Inr (Some pt)"
  then have "v2_steps_hold L cfg payload sig pt" by (simp add: decrypt_v2_payload_Some_iff)
  then show "\<exists>hk' rnd' owner_pk' pke'.
         payload_hk payload = Inr hk' \<and> payload_round L payload = Inr rnd' \<and>
         fromhex (configured_owner_pk_hex cfg) = Inr owner_pk' \<and>
         hex_field payload [''W_owner'', ''pke''] = Inr pke' \<and>
         hex_field payload [''binding''] = Inr (binding L hk' rnd' owner_pk' pke')"
    unfolding v2_steps_hold_def by blast
qed

theorem v2_binding_commitment_witness:
  "hex_field (demo_payload []) [''binding''] =
     Inr [26, 219, 253, 124, 145, 249, 43, 101, 4, 216, 248, 14, 100, 52, 142, 33, 146, 69, 18, 58, 92, 60, 147, 113, 143, 109, 157, 164, 51, 67, 165, 130] \<and>
   v2_binding_gate demo_lib demo_cfg (demo_payload []) =
     Inr (Some ([10, 11], [115, 115, 115, 115],
       [26, 219, 253, 124, 145, 249, 43, 101, 4, 216, 248, 14, 100, 52, 142, 33, 146, 69, 18, 58, 92, 60, 147, 113, 143, 109, 157, 164, 51, 67, 165, 130]))"
proof -
  let ?d = "[26, 219, 253, 124, 145, 249, 43, 101, 4, 216, 248, 14, 100, 52, 142, 33, 146, 69, 18, 58, 92, 60, 147, 113, 143, 109, 157, 164, 51, 67, 165, 130]"
  have h: "configured_owner_pk_hex demo_cfg \<noteq> [] \<and>
    dict_get (demo_payload []) ''owner_pk'' = Inr None \<and>
    \<not> owner_pk_differs None (configured_owner_pk_hex demo_cfg) \<and>
    fromhex (configured_owner_pk_hex demo_cfg) = Inr [10, 11] \<and>
    hex_field (demo_payload []) [''W_owner'', ''pke''] = Inr [115, 115, 115, 115] \<and>
    payload_hk (demo_payload []) = Inr ''hk1'' \<and>
    payload_round demo_lib (demo_payload []) = Inr 7 \<and>
    hex_field (demo_payload []) [''binding''] = Inr ?d"
    by (simp add: demo_eval)
  with v2_binding_commitment [where L = demo_lib and hk = "''hk1''" and rnd = 7
      and owner_pk = "[10, 11]" and pke = "[115, 115, 115, 115]" and cfg = demo_cfg
      and payload = "demo_payload []" and po = None and declared = ?d and sig = None]
  have "v2_binding_gate demo_lib demo_cfg (demo_payload []) =
      Inr (if ?d = binding demo_lib ''hk1'' 7 [10, 11] [115, 115, 115, 115]
           then Some ([10, 11], [115, 115, 115, 115], ?d) else None)"
    by blast
  with h show ?thesis by (simp add: demo_binding)
qed

text \<open>
  Claim C5, as stated: every payload whose \<^verbatim>\<open>owner_pk\<close> field differs from the configured
  key decrypts to \<open>None\<close>. The code compares only when the field is a string: a payload
  that declares the number 5 as its owner key decrypts.
\<close>

theorem owner_pk_mismatch_counterexample:
  "dict_get (demo_payload [(''owner_pk'', JInt 5)]) ''owner_pk'' = Inr (Some (JInt 5)) \<and>
   decrypt_v2_payload demo_lib demo_cfg (demo_payload [(''owner_pk'', JInt 5)]) (Some (ascii ''sig7''))
     = Inr (Some demo_plaintext)"
  by (simp add: demo_eval demo_binding)

text \<open>
  Claim C5, amended. Decryption returns \<open>None\<close> whenever no owner key is configured
  (unset, empty or blank), and whenever the payload's \<^verbatim>\<open>owner_pk\<close> field is a string
  that differs from the configured key, both in lower case.
\<close>

theorem decrypt_v2_owner_key_gate:
  "(configured_owner_pk_hex cfg = [] \<longrightarrow> decrypt_v2_payload L cfg payload sig = Inr None) \<and>
   (\<forall>s. dict_get payload ''owner_pk'' = Inr (Some (JStr s)) \<and>
        py_lower s \<noteq> py_lower (configured_owner_pk_hex cfg) \<longrightarrow>
        decrypt_v2_payload L cfg payload sig = Inr None)"
proof (intro conjI allI impI)
  assume "configured_owner_pk_hex cfg = []"
  then have "\<not> v2_steps_hold L cfg payload sig pt" for pt
    by (simp add: v2_steps_hold_def)
  then show "decrypt_v2_payload L cfg payload sig = Inr None"
    using decrypt_v2_payload_cases [of L cfg payload sig]
    by (auto simp: decrypt_v2_payload_Some_iff)
next
  fix s
  assume "dict_get payload ''owner_pk'' = Inr (Some (JStr s)) \<and>
        py_lower s \<noteq> py_lower (configured_owner_pk_hex cfg)"
  then have "\<not> v2_steps_hold L cfg payload sig pt" for pt
    by (auto simp: v2_steps_hold_def owner_pk_differs_def)
  then show "decrypt_v2_payload L cfg payload sig = Inr None"
    using decrypt_v2_payload_cases [of L cfg payload sig]
    by (auto simp: decrypt_v2_payload_Some_iff)
qed

theorem decrypt_v2_owner_key_gate_witness:
  "configured_owner_pk_hex (demo_cfg\<lparr>OWNER_HPKE_PUBLIC_KEY_HEX := Some ''  ''\<rparr>) = [] \<and>
   decrypt_v2_payload demo_lib (demo_cfg\<lparr>OWNER_HPKE_PUBLIC_KEY_HEX := Some ''  ''\<rparr>)
     (demo_payload [(''owner_pk'', JStr ''0a0b'')]) (Some (ascii ''sig7'')) = Inr None \<and>
   dict_get (demo_payload [(''owner_pk'', JStr ''0A0c'')]) ''owner_pk'' = Inr (Some (JStr ''0A0c'')) \<and>
   py_lower ''0A0c'' \<noteq> py_lower (configured_owner_pk_hex demo_cfg) \<and>
   decrypt_v2_payload demo_lib demo_cfg (demo_payload [(''owner_pk'', JStr ''0A0c'')])
     (Some (ascii ''sig7'')) = Inr None"
proof -
  let ?cfg = "demo_cfg\<lparr>OWNER_HPKE_PUBLIC_KEY_HEX := Some ''  ''\<rparr>"
  let ?p = "demo_payload [(''owner_pk'', JStr ''0A0c'')]"
  have blank: "configured_owner_pk_hex ?cfg = []"
    by (simp add: demo_eval)
  have differs: "dict_get ?p ''owner_pk'' = Inr (Some (JStr ''0A0c''))"
    "py_lower ''0A0c'' \<noteq> py_lower (configured_owner_pk_hex demo_cfg)"
    by (simp_all add: demo_eval)
  from blank differs
    decrypt_v2_owner_key_gate [where cfg = ?cfg and L = demo_lib
      and payload = "demo_payload [(''owner_pk'', JStr ''0a0b'')]" and sig = "Some (ascii ''sig7'')"]
    decrypt_v2_owner_key_gate [where cfg = demo_cfg and L = demo_lib
      and payload = ?p and sig = "Some (ascii ''sig7'')"]
  show ?thesis by blast
qed

section \<open>The block sequence\<close>

lemma blocks_append_step:
  "blocks (state_of (append_step L cfg block prices payloads mg_hotkeys st)) = blocks st @ [block]"
  by (simp add: append_step_def Let_def)

lemma blocks_process_pending:
  "blocks (state_of (fst (process_pending_payloads L N cfg st))) = blocks st"
  by (simp add: process_pending_payloads_def split: sum.splits prod.splits)

lemma blocks_prune_hotkeys: "blocks (prune_hotkeys active st) = blocks st"
  by (simp add: prune_hotkeys_def)

lemma blocks_apply_op: "blocks (apply_op L cfg x st) = blocks st @ appended_blocks [x]"
  by (cases x) (simp_all add: blocks_append_step blocks_process_pending blocks_prune_hotkeys)

lemma appended_blocks_Cons: "appended_blocks (x # ops) = appended_blocks [x] @ appended_blocks ops"
  by (cases x) simp_all

lemma blocks_run_ops: "blocks (run_ops L cfg ops st) = blocks st @ appended_blocks ops"
proof (induction ops arbitrary: st)
  case Nil
  then show ?case by (simp add: run_ops_def)
next
  case (Cons x ops)
  have "blocks (run_ops L cfg (x # ops) st) = blocks (run_ops L cfg ops (apply_op L cfg x st))"
    by (simp add: run_ops_def)
  also have "\<dots> = blocks (apply_op L cfg x st) @ appended_blocks ops"
    by (rule Cons.IH)
  also have "\<dots> = blocks st @ appended_blocks (x # ops)"
    unfolding blocks_apply_op appended_blocks_Cons [of x ops] by simp
  finally show ?case .
qed

text \<open>
  Claim C9, as stated: after every sequence of operations, with arbitrary block
  arguments, the block list is strictly increasing. \<^verbatim>\<open>append_step\<close> appends the block it
  is given without comparing it: appending 200 and then 100 to the empty ledger gives
  the list \<open>[200, 100]\<close>.
\<close>

theorem blocks_strictly_increasing_counterexample:
  "blocks (run_ops demo_lib demo_cfg [AppendStep 200 [] [] [], AppendStep 100 [] [] []]
      (datalog_init demo_cfg)) = [200, 100] \<and>
   \<not> sorted_wrt (<) (blocks (run_ops demo_lib demo_cfg
      [AppendStep 200 [] [] [], AppendStep 100 [] [] []] (datalog_init demo_cfg)))"
  by (simp add: blocks_run_ops datalog_init_def)

text \<open>
  Claim C9, amended. Entries once written are never modified: after every sequence of
  operations the block list is the list before, followed by the blocks given to
  \<^verbatim>\<open>append_step\<close> in order. So the list before is a prefix of the list after, and the
  list after is strictly increasing when each appended block is greater than the block
  before it.
\<close>

theorem blocks_append_only:
  "blocks (run_ops L cfg ops st) = blocks st @ appended_blocks ops \<and>
   prefix (blocks st) (blocks (run_ops L cfg ops st)) \<and>
   (sorted_wrt (<) (blocks st @ appended_blocks ops) \<longrightarrow>
      sorted_wrt (<) (blocks (run_ops L cfg ops st)))"
  by (simp add: blocks_run_ops)

theorem blocks_append_only_witness:
  "sorted_wrt (<) (blocks (datalog_init demo_cfg) @
      appended_blocks [AppendStep 100 [] [] [], PruneHotkeys [], AppendStep 200 [] [] []]) \<and>
   blocks (run_ops demo_lib demo_cfg [AppendStep 100 [] [] [], PruneHotkeys [], AppendStep 200 [] [] []]
      (datalog_init demo_cfg)) = [100, 200] \<and>
   sorted_wrt (<) (blocks (run_ops demo_lib demo_cfg
      [AppendStep 100 [] [] [], PruneHotkeys [], AppendStep 200 [] [] []] (datalog_init demo_cfg)))"
proof -
  let ?ops = "[AppendStep 100 [] [] [], PruneHotkeys [], AppendStep 200 [] [] []]"
  have inc: "sorted_wrt (<) (blocks (datalog_init demo_cfg) @ appended_blocks ?ops)"
    by (simp add: datalog_init_def)
  with blocks_append_only [where L = demo_lib and cfg = demo_cfg and ops = ?ops
      and st = "datalog_init demo_cfg"]
  show ?thesis by (simp add: datalog_init_def)
qed

section \<open>The merge of decrypt results\<close>

lemma foldE_Inr:
  assumes "\<And>x s. x \<in> set xs \<Longrightarrow> P s \<Longrightarrow> f x s = Inr (g x s) \<and> P (g x s)" and "P s"
  shows "foldE f xs s = Inr (fold g xs s) \<and> P (fold g xs s)"
  using assms
proof (induction xs arbitrary: s)
  case Nil
  then show ?case by simp
next
  case (Cons x xs)
  from Cons.prems have step: "f x s = Inr (g x s)" "P (g x s)" by simp_all
  have "foldE f xs (g x s) = Inr (fold g xs (g x s)) \<and> P (fold g xs (g x s))"
    by (rule Cons.IH) (use Cons.prems step in auto)
  with step show ?case by simp
qed

lemma apply_write_keys: "fst ` set (apply_write L w cs) = fst ` set cs"
proof -
  obtain t i hk vec where w: "w = (t, i, hk, vec)" by (cases w)
  show ?thesis
  proof (cases "map_of cs t")
    case None
    then show ?thesis by (simp add: apply_write_def w)
  next
    case (Some ch)
    then have "t \<in> fst ` set cs" by (force dest: map_of_SomeD)
    then show ?thesis using Some by (auto simp: apply_write_def w dom_update)
  qed
qed

lemma fold_apply_write_keys: "fst ` set (fold (apply_write L) ws cs) = fst ` set cs"
  by (induction ws arbitrary: cs) (simp_all add: apply_write_keys)

lemma merge_vec_write:
  assumes "fst t_vec \<in> fst ` set cs"
  shows "merge_vec L i hk t_vec cs =
     Inr (if list_ex ne_zero (snd t_vec) then apply_write L (fst t_vec, i, hk, snd t_vec) cs else cs)"
proof -
  obtain t vec where tv: "t_vec = (t, vec)" by (cases t_vec)
  from assms tv have "map_of cs t \<noteq> None" by (simp add: map_of_eq_None_iff)
  then obtain ch where "map_of cs t = Some ch" by blast
  then show ?thesis by (simp add: merge_vec_def apply_write_def tv)
qed

lemma merge_hotkey_writes:
  assumes "fst ` set (snd hk_vecs) \<subseteq> fst ` set cs"
  shows "merge_hotkey L i hk_vecs cs = Inr (fold (apply_write L) (emb_writes_hotkey i hk_vecs) cs)"
proof -
  let ?g = "\<lambda>t_vec cs. if list_ex ne_zero (snd t_vec)
      then apply_write L (fst t_vec, i, fst hk_vecs, snd t_vec) cs else cs"
  let ?P = "\<lambda>cs' :: chs. fst ` set cs' = fst ` set cs"
  have "foldE (merge_vec L i (fst hk_vecs)) (snd hk_vecs) cs = Inr (fold ?g (snd hk_vecs) cs) \<and>
      ?P (fold ?g (snd hk_vecs) cs)"
  proof (rule foldE_Inr [where P = ?P])
    fix x and s :: chs assume x: "x \<in> set (snd hk_vecs)" and s: "fst ` set s = fst ` set cs"
    with assms have "fst x \<in> fst ` set s" by auto
    then show "merge_vec L i (fst hk_vecs) x s = Inr (?g x s) \<and> ?P (?g x s)"
      using s by (simp add: merge_vec_write apply_write_keys)
  qed simp
  moreover have "fold ?g xs cs' = fold (apply_write L)
      (map (\<lambda>t_vec. (fst t_vec, i, fst hk_vecs, snd t_vec))
        (filter (\<lambda>t_vec. list_ex ne_zero (snd t_vec)) xs)) cs'" for xs cs'
    by (induction xs arbitrary: cs') simp_all
  ultimately show ?thesis by (simp add: merge_hotkey_def emb_writes_hotkey_def)
qed

lemma fold_fold_concat: "fold (\<lambda>x. fold f (h x)) xs s = fold f (concat (map h xs)) s"
  by (induction xs arbitrary: s) simp_all

lemma merge_timestep_writes:
  assumes "SAMPLE_EVERY cfg \<noteq> 0" and "fst ts_by_hk < length blks"
    and "\<forall>hk_vecs \<in> set (snd ts_by_hk). fst ` set (snd hk_vecs) \<subseteq> fst ` set cs"
  shows "merge_timestep L cfg blks ts_by_hk cs =
     Inr (fold (apply_write L) (emb_writes_timestep cfg blks ts_by_hk) cs)"
proof -
  obtain ts by_hk where eq: "ts_by_hk = (ts, by_hk)" by (cases ts_by_hk)
  from assms eq have ts: "ts < length blks"
    and sub: "\<forall>hk_vecs \<in> set by_hk. fst ` set (snd hk_vecs) \<subseteq> fst ` set cs" by simp_all
  show ?thesis
  proof (cases "blks ! ts mod SAMPLE_EVERY cfg = 0")
    case False
    with assms(1) ts show ?thesis
      by (simp add: merge_timestep_def emb_writes_timestep_def eq)
  next
    case True
    let ?i = "blks ! ts div SAMPLE_EVERY cfg"
    let ?g = "\<lambda>hk_vecs. fold (apply_write L) (emb_writes_hotkey ?i hk_vecs)"
    let ?P = "\<lambda>cs' :: chs. fst ` set cs' = fst ` set cs"
    have "foldE (merge_hotkey L ?i) by_hk cs = Inr (fold ?g by_hk cs) \<and> ?P (fold ?g by_hk cs)"
    proof (rule foldE_Inr [where P = ?P])
      fix x and s :: chs assume "x \<in> set by_hk" and "fst ` set s = fst ` set cs"
      with sub show "merge_hotkey L ?i x s = Inr (?g x s) \<and> ?P (?g x s)"
        by (simp add: merge_hotkey_writes fold_apply_write_keys)
    qed simp
    with True assms(1) ts show ?thesis
      by (simp add: merge_timestep_def emb_writes_timestep_def eq fold_fold_concat)
  qed
qed

lemma merge_dec_writes:
  assumes "SAMPLE_EVERY cfg \<noteq> 0" and "dec_ok blks cs dec"
  shows "merge_dec L cfg blks dec cs = Inr (fold (apply_write L) (emb_writes cfg blks dec) cs)"
proof -
  let ?g = "\<lambda>ts_by_hk. fold (apply_write L) (emb_writes_timestep cfg blks ts_by_hk)"
  let ?P = "\<lambda>cs' :: chs. fst ` set cs' = fst ` set cs"
  have "foldE (merge_timestep L cfg blks) dec cs = Inr (fold ?g dec cs) \<and> ?P (fold ?g dec cs)"
  proof (rule foldE_Inr [where P = ?P])
    fix x and s :: chs assume "x \<in> set dec" and "fst ` set s = fst ` set cs"
    with assms show "merge_timestep L cfg blks x s = Inr (?g x s) \<and> ?P (?g x s)"
      by (simp add: merge_timestep_writes fold_apply_write_keys dec_ok_def)
  qed simp
  then show ?thesis by (simp add: merge_dec_def emb_writes_def fold_fold_concat)
qed

lemma emb_writes_iff:
  "(t, i, hk, vec) \<in> set (emb_writes cfg blks dec) \<longleftrightarrow>
     (\<exists>ts by_hk vecs. (ts, by_hk) \<in> set dec \<and> (hk, vecs) \<in> set by_hk \<and> (t, vec) \<in> set vecs \<and>
        blks ! ts mod SAMPLE_EVERY cfg = 0 \<and> i = blks ! ts div SAMPLE_EVERY cfg \<and>
        list_ex ne_zero vec)"
  unfolding emb_writes_def emb_writes_timestep_def emb_writes_hotkey_def
  by (auto split: if_splits) force+

text \<open>
  Claim C6. When the decrypt results are merged, the embeddings written are exactly
  those of the aligned timesteps and the vectors with a non-zero element: the merge is
  the sequence of \<^verbatim>\<open>set_emb\<close> calls \<open>emb_writes\<close>, and a call for a challenge, sample
  index, hotkey and vector is among them if and only if the vector belongs to that
  hotkey at a timestep whose block is a multiple of the sampling interval, the sample
  index is that of the block, and the vector has a non-zero element. So an all-zero
  vector and a vector of a timestep that is not aligned are never written.
\<close>

theorem merge_writes_nonzero_aligned:
  assumes "SAMPLE_EVERY cfg \<noteq> 0" and "dec_ok blks cs dec"
  shows "merge_dec L cfg blks dec cs = Inr (fold (apply_write L) (emb_writes cfg blks dec) cs) \<and>
     (\<forall>t i hk vec. (t, i, hk, vec) \<in> set (emb_writes cfg blks dec) \<longleftrightarrow>
        (\<exists>ts by_hk vecs. (ts, by_hk) \<in> set dec \<and> (hk, vecs) \<in> set by_hk \<and> (t, vec) \<in> set vecs \<and>
           blks ! ts mod SAMPLE_EVERY cfg = 0 \<and> i = blks ! ts div SAMPLE_EVERY cfg \<and>
           list_ex ne_zero vec))"
proof (intro conjI allI)
  show "merge_dec L cfg blks dec cs = Inr (fold (apply_write L) (emb_writes cfg blks dec) cs)"
    by (rule merge_dec_writes [OF assms])
next
  fix t i hk vec
  show "(t, i, hk, vec) \<in> set (emb_writes cfg blks dec) \<longleftrightarrow>
        (\<exists>ts by_hk vecs. (ts, by_hk) \<in> set dec \<and> (hk, vecs) \<in> set by_hk \<and> (t, vec) \<in> set vecs \<and>
           blks ! ts mod SAMPLE_EVERY cfg = 0 \<and> i = blks ! ts div SAMPLE_EVERY cfg \<and>
           list_ex ne_zero vec)"
    by (rule emb_writes_iff)
qed

lemma demo_challenges:
  "challenges (datalog_init demo_cfg) =
     [(''BTC'', \<lparr>cd_dim = 2, cd_blocks_ahead = 300, sidx = []\<rparr>),
      (''ETH'', \<lparr>cd_dim = 1, cd_blocks_ahead = 300, sidx = []\<rparr>)]"
  by (simp add: datalog_init_def demo_cfg_def)

lemma demo_emb_writes:
  "emb_writes demo_cfg [100, 150] demo_dec = [(''BTC'', 1, ''hk1'', [JInt 1, JFloat (Finite (- 1 / 2))])]"
  by (simp add: emb_writes_def emb_writes_timestep_def emb_writes_hotkey_def demo_dec_def demo_cfg_def)

theorem merge_writes_nonzero_aligned_witness:
  "SAMPLE_EVERY demo_cfg \<noteq> 0 \<and>
   dec_ok [100, 150] (challenges (datalog_init demo_cfg)) demo_dec \<and>
   emb_writes demo_cfg [100, 150] demo_dec = [(''BTC'', 1, ''hk1'', [JInt 1, JFloat (Finite (- 1 / 2))])] \<and>
   merge_dec demo_lib demo_cfg [100, 150] demo_dec (challenges (datalog_init demo_cfg)) =
     Inr [(''BTC'', \<lparr>cd_dim = 2, cd_blocks_ahead = 300,
             sidx = [(1, \<lparr>hotkeys = [''hk1''], price = None,
                           emb = [(''hk1'', [Finite 1, Finite (- 1 / 2)])]\<rparr>)]\<rparr>),
          (''ETH'', \<lparr>cd_dim = 1, cd_blocks_ahead = 300, sidx = []\<rparr>)]"
proof -
  have se: "SAMPLE_EVERY demo_cfg \<noteq> 0" by (simp add: demo_cfg_def)
  have ok: "dec_ok [100, 150] (challenges (datalog_init demo_cfg)) demo_dec"
    by (simp add: dec_ok_def demo_challenges demo_dec_def)
  from merge_writes_nonzero_aligned [OF se ok, of demo_lib]
  have "merge_dec demo_lib demo_cfg [100, 150] demo_dec (challenges (datalog_init demo_cfg)) =
      Inr (fold (apply_write demo_lib) (emb_writes demo_cfg [100, 150] demo_dec)
        (challenges (datalog_init demo_cfg)))"
    by blast
  then have "merge_dec demo_lib demo_cfg [100, 150] demo_dec (challenges (datalog_init demo_cfg)) =
     Inr [(''BTC'', \<lparr>cd_dim = 2, cd_blocks_ahead = 300,
             sidx = [(1, \<lparr>hotkeys = [''hk1''], price = None,
                           emb = [(''hk1'', [Finite 1, Finite (- 1 / 2)])]\<rparr>)]\<rparr>),
          (''ETH'', \<lparr>cd_dim = 1, cd_blocks_ahead = 300, sidx = []\<rparr>)]"
    by (simp add: demo_emb_writes demo_challenges apply_write_def set_emb_def sample_at_def
        demo_lib_def)
  with se ok demo_emb_writes show ?thesis by blast
qed

section \<open>Dataset construction excludes bad prices and long streaks\<close>

lemma sample_row_Some:
  assumes "sample_row L cfg ch hks ps kv = Inr (Some (i, mat, y))"
  shows "i = fst kv \<and> (\<exists>fut p0 p1.
     price (snd kv) = Some p0 \<and> \<not> float_le_zero p0 \<and>
     map_of (sidx ch) (i + cd_blocks_ahead ch div SAMPLE_EVERY cfg) = Some fut \<and>
     price fut = Some p1 \<and> \<not> float_le_zero p1 \<and>
     \<not> (max_unchanged cfg > 0 \<and> int (snd ps) > max_unchanged cfg))"
  using assms unfolding sample_row_def
  by (auto simp: bindE_Inr_iff split: if_splits option.splits)

lemma rows_loop_emitted:
  assumes "rows_loop L cfg ch hks mb ps rest = Inr rows" and "(i, mat, y) \<in> set rows"
  shows "\<exists>pre data post fut p0 p1.
     rest = pre @ (i, data) # post \<and>
     price data = Some p0 \<and> \<not> float_le_zero p0 \<and>
     map_of (sidx ch) (i + cd_blocks_ahead ch div SAMPLE_EVERY cfg) = Some fut \<and>
     price fut = Some p1 \<and> \<not> float_le_zero p1 \<and>
     \<not> (max_unchanged cfg > 0 \<and>
        int (snd (fold (\<lambda>kv. streak_step (price (snd kv))) (pre @ [(i, data)]) ps)) > max_unchanged cfg)"
  using assms
proof (induction rest arbitrary: ps rows)
  case Nil
  then show ?case by simp
next
  case (Cons kv rest)
  let ?ps' = "streak_step (price (snd kv)) ps"
  from Cons.prems(2) have nonempty: "rows \<noteq> []" by auto
  with Cons.prems(1) obtain r rows' where
    r: "sample_row L cfg ch hks ?ps' kv = Inr r" and
    rec: "rows_loop L cfg ch hks mb ?ps' rest = Inr rows'" and
    rows: "rows = (case r of None \<Rightarrow> rows' | Some x \<Rightarrow> x # rows')"
    by (auto simp: bindE_Inr_iff split: if_splits)
  show ?case
  proof (cases "(i, mat, y) \<in> set rows'")
    case True
    from Cons.IH [OF rec True] obtain pre data post fut p0 p1 where
      "rest = pre @ (i, data) # post" "price data = Some p0" "\<not> float_le_zero p0"
      "map_of (sidx ch) (i + cd_blocks_ahead ch div SAMPLE_EVERY cfg) = Some fut"
      "price fut = Some p1" "\<not> float_le_zero p1"
      "\<not> (max_unchanged cfg > 0 \<and>
        int (snd (fold (\<lambda>kv. streak_step (price (snd kv))) (pre @ [(i, data)]) ?ps')) > max_unchanged cfg)"
      by blast
    then have "kv # rest = (kv # pre) @ (i, data) # post \<and>
      price data = Some p0 \<and> \<not> float_le_zero p0 \<and>
      map_of (sidx ch) (i + cd_blocks_ahead ch div SAMPLE_EVERY cfg) = Some fut \<and>
      price fut = Some p1 \<and> \<not> float_le_zero p1 \<and>
      \<not> (max_unchanged cfg > 0 \<and>
        int (snd (fold (\<lambda>kv. streak_step (price (snd kv))) ((kv # pre) @ [(i, data)]) ps))
          > max_unchanged cfg)"
      by simp
    then show ?thesis by blast
  next
    case False
    with Cons.prems(2) rows have "r = Some (i, mat, y)" by (cases r) auto
    with r have "sample_row L cfg ch hks ?ps' kv = Inr (Some (i, mat, y))" by simp
    from sample_row_Some [OF this] obtain fut p0 p1 where
      "i = fst kv" "price (snd kv) = Some p0" "\<not> float_le_zero p0"
      "map_of (sidx ch) (i + cd_blocks_ahead ch div SAMPLE_EVERY cfg) = Some fut"
      "price fut = Some p1" "\<not> float_le_zero p1"
      "\<not> (max_unchanged cfg > 0 \<and> int (snd ?ps') > max_unchanged cfg)"
      by blast
    then have "kv # rest = [] @ (i, snd kv) # rest \<and>
      price (snd kv) = Some p0 \<and> \<not> float_le_zero p0 \<and>
      map_of (sidx ch) (i + cd_blocks_ahead ch div SAMPLE_EVERY cfg) = Some fut \<and>
      price fut = Some p1 \<and> \<not> float_le_zero p1 \<and>
      \<not> (max_unchanged cfg > 0 \<and>
        int (snd (fold (\<lambda>kv. streak_step (price (snd kv))) ([] @ [(i, snd kv)]) ps)) > max_unchanged cfg)"
      by simp
    then show ?thesis by blast
  qed
qed

lemma filter_le_sorted_prefix:
  assumes "sorted (map fst (pre @ (i, d) # post))" and "distinct (map fst (pre @ (i, d) # post))"
  shows "filter (\<lambda>kv. fst kv \<le> (i::int)) (pre @ (i, d) # post) = pre @ [(i, d)]"
proof -
  from assms(1) have pre: "\<forall>kv \<in> set pre. fst kv \<le> i"
    by (auto simp: sorted_append)
  from assms(1) have "\<forall>kv \<in> set post. i \<le> fst kv"
    by (auto simp: sorted_append)
  moreover from assms(2) have "\<forall>kv \<in> set post. fst kv \<noteq> i" by auto
  ultimately have post: "\<forall>kv \<in> set post. \<not> fst kv \<le> i" by force
  from pre have "filter (\<lambda>kv. fst kv \<le> i) pre = pre" by (simp add: filter_id_conv)
  moreover from post have "filter (\<lambda>kv. fst kv \<le> i) post = []" by (simp add: filter_empty_conv)
  ultimately show ?thesis by simp
qed

lemma distinct_map_fst_sort_key:
  "distinct (map fst (sort_key fst xs)) = distinct (map fst xs)"
  by (simp add: distinct_map)

lemma emitted_sample:
  assumes "i \<in> set (emitted L cfg mb ch)" and "distinct (map fst (sidx ch))"
  shows "\<exists>data fut p0 p1.
     map_of (sidx ch) i = Some data \<and>
     price data = Some p0 \<and> \<not> float_le_zero p0 \<and>
     map_of (sidx ch) (i + cd_blocks_ahead ch div SAMPLE_EVERY cfg) = Some fut \<and>
     price fut = Some p1 \<and> \<not> float_le_zero p1 \<and>
     \<not> (max_unchanged cfg > 0 \<and> int (streak_at ch i) > max_unchanged cfg)"
proof -
  let ?S = "sort_key fst (sidx ch)"
  from assms(1) obtain rows where tr: "training_rows L cfg mb ch = Inr rows" and "i \<in> fst ` set rows"
    by (cases "training_rows L cfg mb ch") (auto simp: emitted_def)
  then obtain mat y where mem: "(i, mat, y) \<in> set rows" by auto
  from tr have rows: "rows_loop L cfg ch (all_hotkeys ch) mb (None, 0) ?S = Inr rows"
    by (simp add: training_rows_def split: if_splits)
  from rows_loop_emitted [OF rows mem] obtain pre data post fut p0 p1 where
    S: "?S = pre @ (i, data) # post" and
    rest: "price data = Some p0" "\<not> float_le_zero p0"
      "map_of (sidx ch) (i + cd_blocks_ahead ch div SAMPLE_EVERY cfg) = Some fut"
      "price fut = Some p1" "\<not> float_le_zero p1" and
    streak: "\<not> (max_unchanged cfg > 0 \<and>
        int (snd (fold (\<lambda>kv. streak_step (price (snd kv))) (pre @ [(i, data)]) (None, 0)))
          > max_unchanged cfg)"
    by blast
  have "sorted (map fst ?S)" by simp
  moreover have "distinct (map fst ?S)" using assms(2) by (simp add: distinct_map_fst_sort_key)
  ultimately have "filter (\<lambda>kv. fst kv \<le> i) ?S = pre @ [(i, data)]"
    unfolding S by (rule filter_le_sorted_prefix)
  then have at: "streak_at ch i =
      snd (fold (\<lambda>kv. streak_step (price (snd kv))) (pre @ [(i, data)]) (None, 0))"
    by (simp add: streak_at_def)
  have "(i, data) \<in> set ?S" by (simp add: S)
  then have "(i, data) \<in> set (sidx ch)" by simp
  with assms(2) have "map_of (sidx ch) i = Some data" by simp
  with rest streak at show ?thesis by simp
qed

lemma demo_series_sidx:
  "sidx demo_series =
     [(1, \<lparr>hotkeys = [''hk1''], price = Some (Finite 5), emb = [(''hk1'', [Finite 1, Finite (- 1 / 2)])]\<rparr>),
      (2, \<lparr>hotkeys = [''hk1''], price = Some (Finite 5), emb = [(''hk1'', [Finite 1, Finite (- 1 / 2)])]\<rparr>),
      (3, \<lparr>hotkeys = [''hk1''], price = Some (Finite 5), emb = [(''hk1'', [Finite 1, Finite (- 1 / 2)])]\<rparr>),
      (4, \<lparr>hotkeys = [''hk1''], price = Some (Finite 5), emb = [(''hk1'', [Finite 1, Finite (- 1 / 2)])]\<rparr>),
      (5, \<lparr>hotkeys = [''hk1''], price = Some (Finite 5), emb = [(''hk1'', [Finite 1, Finite (- 1 / 2)])]\<rparr>)]"
  "cd_dim demo_series = 2" "cd_blocks_ahead demo_series = 300"
  by (simp_all add: demo_series_def)

lemma demo_series_hotkeys: "all_hotkeys demo_series = [''hk1'']"
  by (simp add: all_hotkeys_def demo_series_sidx)

lemmas dataset_eval = emitted_def training_rows_def demo_series_sidx demo_series_hotkeys
  demo_cfg_def max_unchanged_def streak_step_def float_ne_def sample_matrix_def fit_row_def
  any_nonzero_def ceiling_reached_def sample_row_def streak_at_def

text \<open>
  Claim C7, as stated: every sample whose streak exceeds the configured maximum is
  excluded. The filter is applied only when the configured maximum is positive: with a
  maximum of 0 the second of five samples with the same price has streak 1 and is
  emitted.
\<close>

theorem streak_filter_counterexample:
  "max_unchanged (demo_cfg\<lparr>MAX_UNCHANGED_TIMESTEPS := Some 0\<rparr>) = 0 \<and>
   streak_at demo_series 2 = 1 \<and>
   emitted demo_lib (demo_cfg\<lparr>MAX_UNCHANGED_TIMESTEPS := Some 0\<rparr>) None demo_series = [1, 2]"
  by (simp add: dataset_eval)

text \<open>
  Claim C7, amended. Every sample that \<^verbatim>\<open>get_training_data_sync\<close> emits for a challenge
  has a price and a future sample with a price, neither of them \<open>\<le> 0\<close>; and when the
  configured maximum of consecutive identical prices is positive, the sample's running
  streak (reset to 0 when the price differs from the last price seen, incremented
  otherwise, unchanged by a sample without a price) does not exceed it. So every sample
  whose current or future price is missing or \<open>\<le> 0\<close> is excluded, and with a positive
  maximum every sample whose streak exceeds it.
\<close>

theorem training_data_excludes:
  assumes "distinct (map fst (sidx ch))" and "i \<in> set (emitted L cfg max_block_number ch)"
  shows "\<exists>data fut p0 p1.
     map_of (sidx ch) i = Some data \<and>
     price data = Some p0 \<and> \<not> float_le_zero p0 \<and>
     map_of (sidx ch) (i + cd_blocks_ahead ch div SAMPLE_EVERY cfg) = Some fut \<and>
     price fut = Some p1 \<and> \<not> float_le_zero p1 \<and>
     (0 < max_unchanged cfg \<longrightarrow> int (streak_at ch i) \<le> max_unchanged cfg)"
proof -
  from emitted_sample [OF assms(2) assms(1)] obtain data fut p0 p1 where
    "map_of (sidx ch) i = Some data" "price data = Some p0" "\<not> float_le_zero p0"
    "map_of (sidx ch) (i + cd_blocks_ahead ch div SAMPLE_EVERY cfg) = Some fut"
    "price fut = Some p1" "\<not> float_le_zero p1"
    "\<not> (max_unchanged cfg > 0 \<and> int (streak_at ch i) > max_unchanged cfg)"
    by blast
  then have "map_of (sidx ch) i = Some data \<and>
     price data = Some p0 \<and> \<not> float_le_zero p0 \<and>
     map_of (sidx ch) (i + cd_blocks_ahead ch div SAMPLE_EVERY cfg) = Some fut \<and>
     price fut = Some p1 \<and> \<not> float_le_zero p1 \<and>
     (0 < max_unchanged cfg \<longrightarrow> int (streak_at ch i) \<le> max_unchanged cfg)"
    by (auto simp: not_less)
  then show ?thesis by blast
qed

theorem training_data_excludes_witness:
  "distinct (map fst (sidx demo_series)) \<and>
   emitted demo_lib demo_cfg None demo_series = [1, 2] \<and>
   max_unchanged demo_cfg = 2 \<and>
   (\<exists>data fut p0 p1.
     map_of (sidx demo_series) 2 = Some data \<and>
     price data = Some p0 \<and> \<not> float_le_zero p0 \<and>
     map_of (sidx demo_series) (2 + cd_blocks_ahead demo_series div SAMPLE_EVERY demo_cfg) = Some fut \<and>
     price fut = Some p1 \<and> \<not> float_le_zero p1 \<and>
     (0 < max_unchanged demo_cfg \<longrightarrow> int (streak_at demo_series 2) \<le> max_unchanged demo_cfg))"
proof -
  have d: "distinct (map fst (sidx demo_series))" by (simp add: demo_series_sidx)
  have e: "emitted demo_lib demo_cfg None demo_series = [1, 2]"
    by (simp add: dataset_eval)
  have m: "max_unchanged demo_cfg = 2" by (simp add: max_unchanged_def demo_cfg_def)
  from e have i: "2 \<in> set (emitted demo_lib demo_cfg None demo_series)" by simp
  show ?thesis using d e m training_data_excludes [OF d i] by (intro conjI)
qed

section \<open>Persistence round-trip\<close>

text \<open>
  Claim C8. For every ledger, path (with or without the compression suffix) and file
  system: when the path is writable and the ledger can be pickled, \<^verbatim>\<open>save\<close> returns,
  and \<^verbatim>\<open>load\<close> of the same path afterwards gives the ledger back, so in particular its
  block sequence and its challenges with their prices, embeddings and hotkey order.
  The libraries are assumed to round-trip.
\<close>

theorem load_save_roundtrip:
  assumes "codec_ok C" and "writable C path" and "pickle_dumps C st = Inr b"
  shows "\<exists>fs'. save C path st fs = Returned fs' \<and>
     load C cfg path fs' = st \<and>
     blocks (load C cfg path fs') = blocks st \<and>
     challenges (load C cfg path fs') = challenges st"
proof -
  let ?content = "if suffix ''.gz'' path then gzip_compress C b else b"
  from assms(2,3) have s: "save C path st fs = Returned (fs(path \<mapsto> ?content))"
    by (simp add: save_def)
  from assms(1,3) have p: "pickle_loads C b = Inr st" by (simp add: codec_ok_def)
  from assms(1) have z: "gzip_decompress C (gzip_compress C b) = Inr b" by (simp add: codec_ok_def)
  have "load C cfg path (fs(path \<mapsto> ?content)) = st"
    by (simp add: load_def p z)
  with s show ?thesis by simp
qed

theorem load_save_roundtrip_witness:
  "codec_ok demo_codec \<and> writable demo_codec ''ledger.pkl.gz'' \<and>
   pickle_dumps demo_codec demo_ledger = Inr [128, 5] \<and>
   (\<exists>fs'. save demo_codec ''ledger.pkl.gz'' demo_ledger Map.empty = Returned fs' \<and>
     load demo_codec demo_cfg ''ledger.pkl.gz'' fs' = demo_ledger \<and>
     blocks (load demo_codec demo_cfg ''ledger.pkl.gz'' fs') = blocks demo_ledger \<and>
     challenges (load demo_codec demo_cfg ''ledger.pkl.gz'' fs') = challenges demo_ledger)"
proof -
  have ok: "codec_ok demo_codec"
    by (auto simp: codec_ok_def demo_codec_def split: if_splits)
  have w: "writable demo_codec ''ledger.pkl.gz''" by (simp add: demo_codec_def)
  have p: "pickle_dumps demo_codec demo_ledger = Inr [128, 5]" by (simp add: demo_codec_def)
  show ?thesis using ok w p load_save_roundtrip [OF ok w p] by (intro conjI)
qed

end
